theory Spec2Isabelle
  imports Main "HOL-Library.Word"
begin

section \<open>JavaScript values\<close>

text \<open>
  A JavaScript string is a sequence of 16-bit code units. \<open>js\<close> turns an ASCII literal
  into such a sequence.
\<close>

type_synonym code_unit = "16 word"
type_synonym jsstring = "code_unit list"

definition js :: "string \<Rightarrow> jsstring" where
  "js s = map of_char s"

text \<open>
  The values that flow through the prompt code are JSON-compatible: the session metadata
  and the variable mapping come from parsed JSON. Numbers are kept abstract (type \<open>'n\<close>):
  their truthiness and their string form are supplied by the host. An object is the finite
  map \<open>map_of kvs\<close> of its own properties.
\<close>

datatype 'n json =
    JNull
  | JBool bool
  | JNum 'n
  | JStr jsstring
  | JArr "'n json list"
  | JObj "(jsstring \<times> 'n json) list"

text \<open>
  A property read on a JSON value can also reach a property that the value inherits from a
  built-in prototype (\<open>({}).constructor\<close>, \<open>"abc".trim\<close>): such host objects are opaque
  values of type \<open>'b\<close>.
\<close>

datatype ('n, 'b) jsval =
    Undefined
  | Data "'n json"
  | Builtin 'b

datatype error =
    Error string
  | TypeError
  | SyntaxError
  | PromptNotFound
  | Thrown nat

text \<open>
  The part of the JavaScript environment that the code relies on and that is not part of
  this repository: \<open>JSON.parse\<close> (\<open>None\<close> when it throws), the number primitives, the
  prototype chain of the built-in objects, and the string form of built-in objects.
  \<open>inherited h v k\<close> is what the lookup of \<open>k\<close> yields on \<open>v\<close> once \<open>v\<close> has no own
  property \<open>k\<close>.
\<close>

record ('n, 'b) host =
  JSON_parse :: "jsstring \<Rightarrow> 'n json option"
  Number_toString :: "'n \<Rightarrow> jsstring"
  Number_falsy :: "'n \<Rightarrow> bool"
  Number_of_length :: "nat \<Rightarrow> 'n"
  inherited :: "'n json \<Rightarrow> jsstring \<Rightarrow> error + ('n, 'b) jsval"
  builtin_get :: "'b \<Rightarrow> jsstring \<Rightarrow> error + ('n, 'b) jsval"
  builtin_toString :: "'b \<Rightarrow> error + jsstring"

subsection \<open>Truthiness, \<open>String(v)\<close>, property reads\<close>

fun truthy :: "('n, 'b) host \<Rightarrow> 'n json \<Rightarrow> bool" where
  "truthy h JNull = False"
| "truthy h (JBool b) = b"
| "truthy h (JNum n) = (\<not> Number_falsy h n)"
| "truthy h (JStr s) = (s \<noteq> [])"
| "truthy h (JArr xs) = True"
| "truthy h (JObj kvs) = True"

definition truthy_opt :: "('n, 'b) host \<Rightarrow> 'n json option \<Rightarrow> bool" where
  "truthy_opt h v = (case v of None \<Rightarrow> False | Some j \<Rightarrow> truthy h j)"

definition truthy_val :: "('n, 'b) host \<Rightarrow> ('n, 'b) jsval \<Rightarrow> bool" where
  "truthy_val h v = (case v of Undefined \<Rightarrow> False | Data j \<Rightarrow> truthy h j | Builtin b \<Rightarrow> True)"

text \<open>
  \<open>String(v)\<close> on a JSON value. An array is joined with commas, \<open>null\<close> elements giving
  the empty string. A plain object has the string form \<open>[object Object]\<close>, unless it has an
  own property \<open>toString\<close>: a JSON value is never callable, so the conversion then finds no
  usable method (\<open>Object.prototype.valueOf\<close> returns the object itself) and throws a
  TypeError.
\<close>

fun ToString :: "('n, 'b) host \<Rightarrow> 'n json \<Rightarrow> error + jsstring"
  and join_comma :: "('n, 'b) host \<Rightarrow> 'n json list \<Rightarrow> error + jsstring" where
  "ToString h JNull = Inr (js ''null'')"
| "ToString h (JBool b) = Inr (if b then js ''true'' else js ''false'')"
| "ToString h (JNum n) = Inr (Number_toString h n)"
| "ToString h (JStr s) = Inr s"
| "ToString h (JArr xs) = join_comma h xs"
| "ToString h (JObj kvs) =
     (case map_of kvs (js ''toString'') of
        None \<Rightarrow> Inr (js ''[object Object]'')
      | Some m \<Rightarrow> Inl TypeError)"
| "join_comma h [] = Inr []"
| "join_comma h (x # xs) =
     (case (if x = JNull then Inr [] else ToString h x) of
        Inl e \<Rightarrow> Inl e
      | Inr a \<Rightarrow>
          (if xs = [] then Inr a
           else (case join_comma h xs of
                   Inl e \<Rightarrow> Inl e
                 | Inr b \<Rightarrow> Inr (a @ js '','' @ b))))"

text \<open>
  An array index or string index is a canonical decimal numeral: digits only, no leading
  zero except for \<open>0\<close> itself.
\<close>

definition is_digit :: "code_unit \<Rightarrow> bool" where
  "is_digit c = (0x30 \<le> c \<and> c \<le> 0x39)"

definition array_index :: "jsstring \<Rightarrow> nat option" where
  "array_index k =
     (if k \<noteq> [] \<and> list_all is_digit k \<and> (hd k \<noteq> 0x30 \<or> k = [0x30])
      then Some (foldl (\<lambda>a c. 10 * a + (unat c - 48)) 0 k)
      else None)"

text \<open>
  \<open>v[k]\<close> on a JSON value other than \<open>null\<close>: own properties first (the keys of an object,
  the indices and \<open>length\<close> of an array or a string), then the prototype chain.
\<close>

fun get_prop :: "('n, 'b) host \<Rightarrow> 'n json \<Rightarrow> jsstring \<Rightarrow> error + ('n, 'b) jsval" where
  "get_prop h JNull k = Inl TypeError"
| "get_prop h (JObj kvs) k =
     (case map_of kvs k of
        Some v \<Rightarrow> Inr (Data v)
      | None \<Rightarrow> inherited h (JObj kvs) k)"
| "get_prop h (JArr xs) k =
     (if k = js ''length'' then Inr (Data (JNum (Number_of_length h (length xs))))
      else (case array_index k of
              Some i \<Rightarrow> if i < length xs then Inr (Data (xs ! i)) else inherited h (JArr xs) k
            | None \<Rightarrow> inherited h (JArr xs) k))"
| "get_prop h (JStr s) k =
     (if k = js ''length'' then Inr (Data (JNum (Number_of_length h (length s))))
      else (case array_index k of
              Some i \<Rightarrow> if i < length s then Inr (Data (JStr [s ! i])) else inherited h (JStr s) k
            | None \<Rightarrow> inherited h (JStr s) k))"
| "get_prop h v k = inherited h v k"

definition GetV :: "('n, 'b) host \<Rightarrow> ('n, 'b) jsval \<Rightarrow> jsstring \<Rightarrow> error + ('n, 'b) jsval" where
  "GetV h v k =
     (case v of
        Undefined \<Rightarrow> Inl TypeError
      | Data j \<Rightarrow> get_prop h j k
      | Builtin b \<Rightarrow> builtin_get h b k)"

text \<open>
  A property with a fixed, application-chosen name (\<open>content\<close>, \<open>media_mode\<close>, ...) is
  read from the own properties only: no built-in prototype defines such a name.
\<close>

definition field :: "'n json \<Rightarrow> string \<Rightarrow> 'n json option" where
  "field v k = (case v of JObj kvs \<Rightarrow> map_of kvs (js k) | _ \<Rightarrow> None)"

section \<open>promptManager.js: substitution\<close>

subsection \<open>The regular expression \<open>/{{\s*([\w.]+)\s*}}/g\<close>\<close>

definition is_space :: "code_unit \<Rightarrow> bool" where
  "is_space c =
     (c = 0x09 \<or> c = 0x0A \<or> c = 0x0B \<or> c = 0x0C \<or> c = 0x0D \<or> c = 0x20 \<or> c = 0xA0
      \<or> c = 0x1680 \<or> (0x2000 \<le> c \<and> c \<le> 0x200A) \<or> c = 0x2028 \<or> c = 0x2029
      \<or> c = 0x202F \<or> c = 0x205F \<or> c = 0x3000 \<or> c = 0xFEFF)"

definition is_word :: "code_unit \<Rightarrow> bool" where
  "is_word c =
     ((0x30 \<le> c \<and> c \<le> 0x39) \<or> (0x41 \<le> c \<and> c \<le> 0x5A) \<or> c = 0x5F
      \<or> (0x61 \<le> c \<and> c \<le> 0x7A))"

definition is_key :: "code_unit \<Rightarrow> bool" where
  "is_key c = (is_word c \<or> c = 0x2E)"

definition lbrace :: code_unit where
  "lbrace = 0x7B"

definition rbrace :: code_unit where
  "rbrace = 0x7D"

text \<open>
  A match of the expression at the start of \<open>s\<close>: the captured key and what follows the
  match. The three classes \<open>\s\<close>, \<open>[\w.]\<close> and \<open>}\<close> are pairwise disjoint, so each greedy
  repetition can only end where its class ends and backtracking never finds another match:
  \<open>match_placeholder_iff\<close> below shows that this function decides the expression.
\<close>

definition match_placeholder :: "jsstring \<Rightarrow> (jsstring \<times> jsstring) option" where
  "match_placeholder s =
     (case s of
        a # b # r \<Rightarrow>
          if a = lbrace \<and> b = lbrace then
            (let r1 = dropWhile is_space r;
                 key = takeWhile is_key r1;
                 r2 = dropWhile is_key r1;
                 r3 = dropWhile is_space r2
             in if key = [] then None
                else (case r3 of
                        c # d # rest \<Rightarrow>
                          if c = rbrace \<and> d = rbrace then Some (key, rest) else None
                      | _ \<Rightarrow> None))
          else None
      | _ \<Rightarrow> None)"

text \<open>\<open>key.split('.')\<close>\<close>

fun split_dot :: "jsstring \<Rightarrow> jsstring list" where
  "split_dot [] = [[]]"
| "split_dot (c # cs) =
     (if c = 0x2E then [] # split_dot cs
      else (case split_dot cs of
              seg # segs \<Rightarrow> (c # seg) # segs
            | [] \<Rightarrow> [[c]]))"

text \<open>
  The reducer \<open>(acc, k) => (acc && acc[k] !== undefined ? acc[k] : undefined)\<close> and the
  \<open>reduce\<close> over the segments, starting from the variables.
\<close>

definition step :: "('n, 'b) host \<Rightarrow> ('n, 'b) jsval \<Rightarrow> jsstring \<Rightarrow> error + ('n, 'b) jsval" where
  "step h acc k =
     (if truthy_val h acc then
        (case GetV h acc k of
           Inl e \<Rightarrow> Inl e
         | Inr v \<Rightarrow> if v \<noteq> Undefined then GetV h acc k else Inr Undefined)
      else Inr Undefined)"

fun walk :: "('n, 'b) host \<Rightarrow> ('n, 'b) jsval \<Rightarrow> jsstring list \<Rightarrow> error + ('n, 'b) jsval" where
  "walk h acc [] = Inr acc"
| "walk h acc (k # ks) =
     (case step h acc k of
        Inl e \<Rightarrow> Inl e
      | Inr v \<Rightarrow> walk h v ks)"

text \<open>\<open>value === undefined || value === null ? '' : String(value)\<close>\<close>

definition render :: "('n, 'b) host \<Rightarrow> ('n, 'b) jsval \<Rightarrow> error + jsstring" where
  "render h v =
     (case v of
        Undefined \<Rightarrow> Inr []
      | Data j \<Rightarrow> if j = JNull then Inr [] else ToString h j
      | Builtin b \<Rightarrow> builtin_toString h b)"

definition replacement :: "('n, 'b) host \<Rightarrow> 'n json \<Rightarrow> jsstring \<Rightarrow> error + jsstring" where
  "replacement h vars key =
     (case walk h (Data vars) (split_dot key) of
        Inl e \<Rightarrow> Inl e
      | Inr v \<Rightarrow> render h v)"

lemma match_placeholder_shorter:
  assumes "match_placeholder s = Some (key, rest)"
  shows "length rest < length s"
proof -
  have le: "length (dropWhile P xs) \<le> length xs" for P and xs :: jsstring
    by (induction xs) auto
  from assms obtain a b r where s: "s = a # b # r"
    by (auto simp: match_placeholder_def split: list.splits)
  from assms s have "dropWhile is_space (dropWhile is_key (dropWhile is_space r))
      = rbrace # rbrace # rest"
    by (auto simp: match_placeholder_def Let_def split: list.splits if_splits)
  then have "length rest + 2 = length (dropWhile is_space (dropWhile is_key (dropWhile is_space r)))"
    by simp
  also have "\<dots> \<le> length (dropWhile is_key (dropWhile is_space r))" by (rule le)
  also have "\<dots> \<le> length (dropWhile is_space r)" by (rule le)
  also have "\<dots> \<le> length r" by (rule le)
  finally show ?thesis using s by simp
qed

text \<open>
  \<open>template.replace(re, callback)\<close> with the global flag: the matches are found from left
  to right, the search resuming after each match; an exception of the callback ends the
  replacement.
\<close>

function replace_placeholders :: "('n, 'b) host \<Rightarrow> jsstring \<Rightarrow> 'n json \<Rightarrow> error + jsstring" where
  "replace_placeholders h [] vars = Inr []"
| "replace_placeholders h (c # cs) vars =
     (case match_placeholder (c # cs) of
        Some (key, rest) \<Rightarrow>
          (case replacement h vars key of
             Inl e \<Rightarrow> Inl e
           | Inr r \<Rightarrow>
               (case replace_placeholders h rest vars of
                  Inl e \<Rightarrow> Inl e
                | Inr t \<Rightarrow> Inr (r @ t)))
      | None \<Rightarrow>
          (case replace_placeholders h cs vars of
             Inl e \<Rightarrow> Inl e
           | Inr t \<Rightarrow> Inr (c # t)))"
  by pat_completeness auto
termination
  by (relation "measure (\<lambda>(h, s, vars). length s)")
     (auto dest: match_placeholder_shorter)

subsection \<open>\<open>toStringPrompt\<close> and \<open>manualCompile\<close>\<close>

text \<open>\<open>String(v ?? '')\<close>, for a value that may be absent (\<open>None\<close> is \<open>undefined\<close>).\<close>

definition String_or_empty :: "('n, 'b) host \<Rightarrow> 'n json option \<Rightarrow> error + jsstring" where
  "String_or_empty h v =
     (case v of
        None \<Rightarrow> Inr []
      | Some j \<Rightarrow> if j = JNull then Inr [] else ToString h j)"

definition typeof_object :: "'n json \<Rightarrow> bool" where
  "typeof_object v = (case v of JNull \<Rightarrow> True | JArr xs \<Rightarrow> True | JObj kvs \<Rightarrow> True | _ \<Rightarrow> False)"

text \<open>\<open>m && typeof m === 'object' ? String(m.content ?? '') : String(m ?? '')\<close>\<close>

definition message_text :: "('n, 'b) host \<Rightarrow> 'n json \<Rightarrow> error + jsstring" where
  "message_text h m =
     (if truthy h m \<and> typeof_object m then String_or_empty h (field m ''content'')
      else String_or_empty h (Some m))"

fun join_lines :: "('n, 'b) host \<Rightarrow> 'n json list \<Rightarrow> error + jsstring" where
  "join_lines h [] = Inr []"
| "join_lines h (m # ms) =
     (case message_text h m of
        Inl e \<Rightarrow> Inl e
      | Inr a \<Rightarrow>
          (if ms = [] then Inr a
           else (case join_lines h ms of
                   Inl e \<Rightarrow> Inl e
                 | Inr b \<Rightarrow> Inr (a @ [0x0A] @ b))))"

definition toStringPrompt :: "('n, 'b) host \<Rightarrow> 'n json option \<Rightarrow> error + jsstring" where
  "toStringPrompt h v =
     (case v of
        Some (JStr s) \<Rightarrow> Inr s
      | Some (JArr ms) \<Rightarrow> join_lines h ms
      | _ \<Rightarrow> String_or_empty h v)"

definition manualCompile :: "('n, 'b) host \<Rightarrow> 'n json option \<Rightarrow> 'n json \<Rightarrow> error + jsstring" where
  "manualCompile h template vars =
     (case toStringPrompt h template of
        Inl e \<Rightarrow> Inl e
      | Inr t \<Rightarrow> replace_placeholders h t vars)"

section \<open>promptManager.js: \<open>generatePrompt\<close>\<close>

text \<open>\<open>String.prototype.trim\<close>: white space and line terminators, the class \<open>\s\<close>.\<close>

definition trim :: "jsstring \<Rightarrow> jsstring" where
  "trim s = rev (dropWhile is_space (rev (dropWhile is_space s)))"

text \<open>\<open>s || ''\<close> on a string.\<close>

definition or_empty :: "jsstring \<Rightarrow> jsstring" where
  "or_empty s = (if s = [] then [] else s)"

definition fallback_template :: jsstring where
  "fallback_template =
     js ''You are a helpful, concise voice assistant. Provide clear, direct answers.''"

text \<open>
  The four properties that \<open>generatePrompt\<close> reads from \<open>details\<close> with \<open>details?.name\<close>;
  \<open>None\<close> is \<open>undefined\<close>, also when \<open>details\<close> itself is missing.
\<close>

record 'n details =
  prompt_name :: "'n json option"
  prompt_label :: "'n json option"
  prompt_text :: "'n json option"
  prompt_variables :: "'n json option"

text \<open>Lines 26-34: the variables, parsed when they arrive as a string.\<close>

definition normalize_variables :: "('n, 'b) host \<Rightarrow> 'n json option \<Rightarrow> 'n json" where
  "normalize_variables h pv =
     (let v0 = (case pv of None \<Rightarrow> JObj [] | Some j \<Rightarrow> if j = JNull then JObj [] else j);
          v1 = (case v0 of
                  JStr s \<Rightarrow> (case JSON_parse h s of Some j \<Rightarrow> j | None \<Rightarrow> JObj [])
                | _ \<Rightarrow> v0)
      in if \<not> truthy h v1 \<or> \<not> typeof_object v1 then JObj [] else v1)"

text \<open>
  The remote prompt service. What \<open>langfuse.prompt.get\<close> resolves to is an object of the
  SDK: its \<open>compile\<close> method when it has one, and its \<open>prompt\<close> property. The call itself
  either throws (\<open>Inl\<close>) or returns, possibly a falsy value (\<open>Inr None\<close>); it may change
  the state of the service, whatever that is. A call that never settles is not modelled.
\<close>

datatype 'n fetched =
  Fetched (compile: "('n json \<Rightarrow> error + 'n json option) option") (prompt: "'n json option")

type_synonym 'n remote_call = "'n json \<times> 'n json option"

type_synonym ('n, 's) langfuse =
  "'s \<Rightarrow> 'n json \<Rightarrow> 'n json option \<Rightarrow> (error + 'n fetched option) \<times> 's"

text \<open>Lines 4-18: the client exists only with both keys, and only if its constructor returns.\<close>

definition Boolean_env :: "jsstring option \<Rightarrow> bool" where
  "Boolean_env v = (case v of None \<Rightarrow> False | Some s \<Rightarrow> s \<noteq> [])"

definition hasLangfuseCreds :: "jsstring option \<Rightarrow> jsstring option \<Rightarrow> bool" where
  "hasLangfuseCreds public_key secret_key = (Boolean_env public_key \<and> Boolean_env secret_key)"

definition init_langfuse ::
  "jsstring option \<Rightarrow> jsstring option \<Rightarrow> error + ('n, 's) langfuse \<Rightarrow> ('n, 's) langfuse option" where
  "init_langfuse public_key secret_key constructed =
     (if hasLangfuseCreds public_key secret_key then
        (case constructed of Inl e \<Rightarrow> None | Inr client \<Rightarrow> Some client)
      else None)"

text \<open>
  Lines 79-86: the lookup with the label when there is one, and on an exception a second
  lookup without label. The calls made are returned in order.
\<close>

definition fetch_prompt ::
  "('n, 's) langfuse \<Rightarrow> 's \<Rightarrow> 'n json \<Rightarrow> 'n json option
     \<Rightarrow> (error + 'n fetched option) \<times> 'n remote_call list \<times> 's" where
  "fetch_prompt get s name label =
     (case get s name label of
        (Inr f, s1) \<Rightarrow> (Inr f, [(name, label)], s1)
      | (Inl e, s1) \<Rightarrow>
          (case get s1 name None of
             (r, s2) \<Rightarrow> (r, [(name, label), (name, None)], s2)))"

text \<open>Lines 89-97: the SDK's own \<open>compile\<close> if there is one, else the manual substitution.\<close>

definition compile_fetched :: "('n, 'b) host \<Rightarrow> 'n fetched \<Rightarrow> 'n json \<Rightarrow> error + jsstring" where
  "compile_fetched h f vars =
     (case (case compile f of
              Some sdk_compile \<Rightarrow> sdk_compile vars
            | None \<Rightarrow>
                (case manualCompile h
                        (if truthy_opt h (prompt f) then prompt f else Some (JStr [])) vars of
                   Inl e \<Rightarrow> Inl e
                 | Inr t \<Rightarrow> Inr (Some (JStr t)))) of
        Inl e \<Rightarrow> Inl e
      | Inr compiledText \<Rightarrow> toStringPrompt h compiledText)"

definition static_fallback :: "('n, 'b) host \<Rightarrow> 'n json \<Rightarrow> error + jsstring" where
  "static_fallback h vars =
     (case manualCompile h (Some (JStr fallback_template)) vars of
        Inl e \<Rightarrow> Inl e
      | Inr t \<Rightarrow> Inr (or_empty t))"

text \<open>
  Lines 78-99, the body of the \<open>try\<close>: the lookup, \<open>Prompt not found\<close> on a falsy
  result, the compilation.
\<close>

definition remote_attempt ::
  "('n, 'b) host \<Rightarrow> ('n, 's) langfuse \<Rightarrow> 's \<Rightarrow> 'n json \<Rightarrow> 'n json option \<Rightarrow> 'n json
     \<Rightarrow> (error + jsstring) \<times> 'n remote_call list \<times> 's" where
  "remote_attempt h get s name label vars =
     (case fetch_prompt get s name label of
        (r, calls, s') \<Rightarrow>
          ((case r of
              Inl e \<Rightarrow> Inl e
            | Inr None \<Rightarrow> Inl PromptNotFound
            | Inr (Some f) \<Rightarrow> compile_fetched h f vars), calls, s'))"

text \<open>Lines 77-109: everything thrown inside the \<open>try\<close> ends in the static fallback.\<close>

definition remote_tier ::
  "('n, 'b) host \<Rightarrow> ('n, 's) langfuse \<Rightarrow> 's \<Rightarrow> 'n json \<Rightarrow> 'n json option \<Rightarrow> 'n json
     \<Rightarrow> (error + jsstring) \<times> 'n remote_call list \<times> 's" where
  "remote_tier h get s name label vars =
     (case remote_attempt h get s name label vars of
        (Inr compiledString, calls, s') \<Rightarrow> (Inr compiledString, calls, s')
      | (Inl e, calls, s') \<Rightarrow> (static_fallback h vars, calls, s'))"

text \<open>
  Lines 23 and 60: \<open>promptText\<close>, the trimmed \<open>prompt_text\<close> when that is a string, else
  the empty string.
\<close>

definition promptText :: "'n details \<Rightarrow> jsstring" where
  "promptText d =
     (let promptTextRaw = (case prompt_text d of Some (JStr t) \<Rightarrow> t | _ \<Rightarrow> [])
      in trim (or_empty promptTextRaw))"

text \<open>
  \<open>generatePrompt(details)\<close>, with the module's \<open>langfuse\<close> client (\<open>None\<close> is \<open>null\<close>) and
  the state of the remote service. The result is what the function returns or throws, the
  calls made to the remote service, in order, and the state of the service afterwards. What
  it writes to the console is left out.
\<close>

definition generatePrompt ::
  "('n, 'b) host \<Rightarrow> ('n, 's) langfuse option \<Rightarrow> 's \<Rightarrow> 'n details
     \<Rightarrow> (error + jsstring) \<times> 'n remote_call list \<times> 's" where
  "generatePrompt h langfuse s d =
     (let promptName = prompt_name d;
          label = (if truthy_opt h (prompt_label d) then prompt_label d else None);
          variables = normalize_variables h (prompt_variables d)
      in case promptName of
           None \<Rightarrow> (Inl (Error ''Missing prompt_name in details''), [], s)
         | Some name \<Rightarrow>
             if \<not> truthy h name then (Inl (Error ''Missing prompt_name in details''), [], s)
             else if length (promptText d) > 0 then
               ((case manualCompile h (Some (JStr (promptText d))) variables of
                   Inl e \<Rightarrow> Inl e
                 | Inr t \<Rightarrow> Inr (or_empty t)), [], s)
             else
               (case langfuse of
                  None \<Rightarrow> (static_fallback h variables, [], s)
                | Some get \<Rightarrow> remote_tier h get s name label variables))"

section \<open>index.ts and db.ts: \<open>POST /api/conversations\<close>\<close>

text \<open>
  The values bound to \<open>$1\<close> ... \<open>$13\<close> of the upsert in \<open>insertConversation\<close>, that is
  the row it writes (\<open>created_at\<close> is set by the database). A JSON column holds the value
  whose text \<open>JSON.stringify\<close> produced.
\<close>

record 'n row =
  col_id :: jsstring
  col_conversation_type :: "'n json"
  col_prompt_name :: "'n json"
  col_prompt_label :: "'n json"
  col_agent_name :: "'n json"
  col_webhook_link :: "'n json"
  col_company_name :: "'n json"
  col_prompt_text :: "'n json"
  col_agent_description :: "'n json"
  col_media_mode :: jsstring
  col_prompt_variables :: "'n json"
  col_ui_variables :: "'n json"
  col_complete_screen :: "'n json"

text \<open>\<open>InsertConversationParams\<close>; an optional property that is absent is \<open>None\<close>.\<close>

record 'n InsertConversationParams =
  id_param :: jsstring
  conversation_type_param :: "'n json"
  prompt_name_param :: "'n json option"
  prompt_label_param :: "'n json option"
  agent_name_param :: "'n json"
  webhook_link_param :: "'n json"
  company_name_param :: "'n json option"
  prompt_text_param :: "'n json option"
  agent_description_param :: "'n json option"
  media_mode_param :: "'n json option"
  prompt_variables_param :: "'n json"
  ui_variables_param :: "'n json"
  complete_screen_param :: "'n json"

text \<open>
  The database server, as far as the handler depends on it: whether the statements of
  \<open>initDb\<close> succeed, whether it accepts a row (it rejects an id that is not a uuid, and
  anything when it is unreachable), and the canonical form under which it compares ids.
\<close>

record 'n pg =
  initDb_ok :: bool
  insert_ok :: "'n row \<Rightarrow> bool"
  uuid_key :: "jsstring \<Rightarrow> jsstring"

type_synonym 'n conversations = "jsstring \<rightharpoonup> 'n row"

text \<open>\<open>v ?? null\<close>\<close>

definition or_null :: "'n json option \<Rightarrow> 'n json" where
  "or_null v = (case v of None \<Rightarrow> JNull | Some j \<Rightarrow> j)"

text \<open>db.ts, lines 144-158: the parameter array of the upsert.\<close>

definition insert_row :: "'n InsertConversationParams \<Rightarrow> 'n row" where
  "insert_row p =
     \<lparr> col_id = id_param p,
       col_conversation_type = conversation_type_param p,
       col_prompt_name = or_null (prompt_name_param p),
       col_prompt_label = or_null (prompt_label_param p),
       col_agent_name = agent_name_param p,
       col_webhook_link = webhook_link_param p,
       col_company_name = or_null (company_name_param p),
       col_prompt_text = or_null (prompt_text_param p),
       col_agent_description = or_null (agent_description_param p),
       col_media_mode = (if media_mode_param p = Some (JStr (js ''audio_video''))
                         then js ''audio_video'' else js ''audio_only''),
       col_prompt_variables = prompt_variables_param p,
       col_ui_variables = ui_variables_param p,
       col_complete_screen = complete_screen_param p \<rparr>"

text \<open>
  \<open>insertConversation\<close>: \<open>insert ... on conflict (id) do update\<close>, every column taking the
  new value; the query throws when the server does not accept it.
\<close>

definition insertConversation ::
  "'n pg \<Rightarrow> 'n InsertConversationParams \<Rightarrow> 'n conversations \<Rightarrow> error + 'n conversations" where
  "insertConversation db p table =
     (let r = insert_row p
      in if insert_ok db r then Inr (table(uuid_key db (col_id r) \<mapsto> r)) else Inl (Thrown 0))"

datatype response =
    Ok jsstring
  | BadRequest string

text \<open>\<open>v || {}\<close> followed by \<open>(v && typeof v === 'object') ? v : {}\<close>\<close>

definition object_or_empty :: "('n, 'b) host \<Rightarrow> 'n json option \<Rightarrow> 'n json" where
  "object_or_empty h v =
     (let w = (if truthy_opt h v then or_null v else JObj [])
      in if truthy h w \<and> typeof_object w then w else JObj [])"

text \<open>\<open>v || ''\<close>\<close>

definition or_empty_string :: "('n, 'b) host \<Rightarrow> 'n json option \<Rightarrow> 'n json" where
  "or_empty_string h v = (if truthy_opt h v then or_null v else JStr [])"

text \<open>
  Line 114: \<open>body.id && body.id.trim() !== '' ? body.id : randomUUID()\<close>. A truthy id
  that is not a string has no callable \<open>trim\<close>: the call throws.
\<close>

definition conversation_id :: "('n, 'b) host \<Rightarrow> 'n json \<Rightarrow> jsstring \<Rightarrow> error + jsstring" where
  "conversation_id h body fresh =
     (case field body ''id'' of
        None \<Rightarrow> Inr fresh
      | Some v \<Rightarrow>
          if \<not> truthy h v then Inr fresh
          else (case v of
                  JStr t \<Rightarrow> if trim t \<noteq> [] then Inr t else Inr fresh
                | _ \<Rightarrow> Inl TypeError))"

text \<open>\<open>readJsonBody\<close>: \<open>text ? JSON.parse(text) : {}\<close>; \<open>None\<close> when the promise rejects.\<close>

definition readJsonBody :: "('n, 'b) host \<Rightarrow> jsstring \<Rightarrow> 'n json option" where
  "readJsonBody h text = (if text \<noteq> [] then JSON_parse h text else Some (JObj []))"

text \<open>
  The handler of \<open>POST /api/conversations\<close> (index.ts, lines 83-147) on the text of the
  request body, with the uuid that \<open>randomUUID()\<close> would return: the response (the \<open>url\<close>
  of the 200 response is a function of its \<open>id\<close>) and the table afterwards. Everything
  thrown inside the \<open>try\<close> gives the 400 response \<open>Invalid JSON body\<close>.
\<close>

definition post_conversations ::
  "('n, 'b) host \<Rightarrow> 'n pg \<Rightarrow> jsstring \<Rightarrow> jsstring \<Rightarrow> 'n conversations
     \<Rightarrow> response \<times> 'n conversations" where
  "post_conversations h db fresh text table =
     (case readJsonBody h text of
        None \<Rightarrow> (BadRequest ''Invalid JSON body'', table)
      | Some body \<Rightarrow>
          if body = JNull then (BadRequest ''Invalid JSON body'', table)
          else
            (let conversation_type = or_empty_string h (field body ''conversation_type'');
                 agent_name = or_empty_string h (field body ''agent_name'');
                 webhook_link = or_empty_string h (field body ''webhook_link'');
                 media_mode = field body ''media_mode'';
                 ui_variables = (if truthy_opt h (field body ''ui_variables'')
                                 then or_null (field body ''ui_variables'') else JObj [])
             in if \<not> truthy h agent_name \<or> \<not> truthy h webhook_link \<or> \<not> truthy h conversation_type
                then (BadRequest
                        ''Missing required snake_case fields: agent_name, webhook_link, conversation_type'',
                      table)
                else if \<not> initDb_ok db then (BadRequest ''Invalid JSON body'', table)
                else
                  (case conversation_id h body fresh of
                     Inl e \<Rightarrow> (BadRequest ''Invalid JSON body'', table)
                   | Inr ident \<Rightarrow>
                       (let media_mode' = (if media_mode = Some (JStr (js ''audio_video''))
                                           then JStr (js ''audio_video'')
                                           else JStr (js ''audio_only''))
                        in case insertConversation db
                                  \<lparr> id_param = ident,
                                    conversation_type_param = conversation_type,
                                    prompt_name_param = field body ''prompt_name'',
                                    prompt_label_param = field body ''prompt_label'',
                                    agent_name_param = agent_name,
                                    webhook_link_param = webhook_link,
                                    company_name_param = field body ''company_name'',
                                    prompt_text_param = field body ''prompt_text'',
                                    agent_description_param = field body ''agent_description'',
                                    media_mode_param = Some media_mode',
                                    prompt_variables_param =
                                      object_or_empty h (field body ''prompt_variables''),
                                    ui_variables_param =
                                      object_or_empty h (field body ''ui_variables''),
                                    complete_screen_param =
                                      object_or_empty h (field ui_variables ''complete_screen'') \<rparr>
                                  table of
                             Inl e \<Rightarrow> (BadRequest ''Invalid JSON body'', table)
                           | Inr table' \<Rightarrow> (Ok ident, table')))))"

section \<open>Notions used to state the properties\<close>

text \<open>Sequencing of computations that may throw.\<close>

definition ebind :: "error + 'a \<Rightarrow> ('a \<Rightarrow> error + 'b) \<Rightarrow> error + 'b" where
  "ebind m f = (case m of Inl e \<Rightarrow> Inl e | Inr x \<Rightarrow> f x)"

text \<open>
  A placeholder as the expression describes it: two opening braces, white space, a key of
  word characters and dots, white space, two closing braces.
\<close>

definition placeholder :: "jsstring \<Rightarrow> jsstring \<Rightarrow> jsstring \<Rightarrow> jsstring" where
  "placeholder w1 key w2 = lbrace # lbrace # w1 @ key @ w2 @ [rbrace, rbrace]"

definition well_formed :: "jsstring \<Rightarrow> jsstring \<Rightarrow> jsstring \<Rightarrow> bool" where
  "well_formed w1 key w2 =
     (list_all is_space w1 \<and> key \<noteq> [] \<and> list_all is_key key \<and> list_all is_space w2)"

text \<open>A template has a placeholder when the expression matches somewhere in it.\<close>

fun has_placeholder :: "jsstring \<Rightarrow> bool" where
  "has_placeholder [] = False"
| "has_placeholder (c # cs) = (match_placeholder (c # cs) \<noteq> None \<or> has_placeholder cs)"

text \<open>
  The keys of the placeholders that the replacement finds, in order, and the template with
  every placeholder erased.
\<close>

function placeholder_keys :: "jsstring \<Rightarrow> jsstring list" where
  "placeholder_keys [] = []"
| "placeholder_keys (c # cs) =
     (case match_placeholder (c # cs) of
        Some (key, rest) \<Rightarrow> key # placeholder_keys rest
      | None \<Rightarrow> placeholder_keys cs)"
  by pat_completeness auto
termination
  by (relation "measure length") (auto dest: match_placeholder_shorter)

function erase_placeholders :: "jsstring \<Rightarrow> jsstring" where
  "erase_placeholders [] = []"
| "erase_placeholders (c # cs) =
     (case match_placeholder (c # cs) of
        Some (key, rest) \<Rightarrow> erase_placeholders rest
      | None \<Rightarrow> c # erase_placeholders cs)"
  by pat_completeness auto
termination
  by (relation "measure length") (auto dest: match_placeholder_shorter)

text \<open>
  Malformed variables: a string that \<open>JSON.parse\<close> rejects, or a value that, parsed if it
  was a string, is not an object (\<open>null\<close> or a primitive).
\<close>

definition malformed_variables :: "('n, 'b) host \<Rightarrow> 'n json option \<Rightarrow> bool" where
  "malformed_variables h pv =
     (case pv of
        None \<Rightarrow> False
      | Some (JStr t) \<Rightarrow>
          (case JSON_parse h t of
             None \<Rightarrow> True
           | Some j \<Rightarrow> \<not> (truthy h j \<and> typeof_object j))
      | Some j \<Rightarrow> \<not> (truthy h j \<and> typeof_object j))"

text \<open>
  What the request supplied as \<open>media_mode\<close>.
\<close>

definition supplied_media_mode :: "('n, 'b) host \<Rightarrow> jsstring \<Rightarrow> 'n json option" where
  "supplied_media_mode h text =
     (case readJsonBody h text of None \<Rightarrow> None | Some body \<Rightarrow> field body ''media_mode'')"

text \<open>
  The resolution of a path as the specification words it: successive key lookup in the
  variable mapping, undefined (\<open>None\<close>) as soon as a segment is missing or the current
  value is not a mapping.
\<close>

fun spec_resolve :: "'n json \<Rightarrow> jsstring list \<Rightarrow> 'n json option" where
  "spec_resolve v [] = Some v"
| "spec_resolve v (k # ks) =
     (case v of
        JObj kvs \<Rightarrow> (case map_of kvs k of Some v' \<Rightarrow> spec_resolve v' ks | None \<Rightarrow> None)
      | _ \<Rightarrow> None)"

section \<open>A sample host\<close>

text \<open>
  A concrete host for evaluating the definitions: integers as numbers, printed in decimal,
  and the function-valued properties that every plain object inherits from
  \<open>Object.prototype\<close>, a built-in function \<open>f\<close> having the string form
  \<open>function f() { [native code] }\<close>. The accessor \<open>__proto__\<close> and what strings, arrays,
  numbers and functions inherit are left out: nothing evaluated below reads them. Its
  \<open>JSON.parse\<close> is a finite table of texts with their values; the other texts evaluated
  below are not JSON.
\<close>

datatype builtin = NativeFunction jsstring

function digits :: "nat \<Rightarrow> jsstring" where
  "digits n = (if n < 10 then [of_nat (48 + n)] else digits (n div 10) @ [of_nat (48 + n mod 10)])"
  by pat_completeness auto
termination
  by (relation "measure (\<lambda>n. n)") auto

definition show_int :: "int \<Rightarrow> jsstring" where
  "show_int i = (if i < 0 then 0x2D # digits (nat (- i)) else digits (nat i))"

definition object_prototype :: "jsstring \<Rightarrow> builtin option" where
  "object_prototype k =
     (if k = js ''constructor'' then Some (NativeFunction (js ''Object''))
      else if k \<in> set (map js [''toString'', ''valueOf'', ''hasOwnProperty'', ''isPrototypeOf'',
                                ''propertyIsEnumerable'', ''toLocaleString'',
                                ''__defineGetter__'', ''__defineSetter__'',
                                ''__lookupGetter__'', ''__lookupSetter__''])
      then Some (NativeFunction k)
      else None)"

definition body_video :: jsstring where
  \<open>body_video = js ''{"agent_name":"Ada","webhook_link":"https://example.org/hook","conversation_type":"interview","media_mode":"audio_video"}''\<close>

definition body_other :: jsstring where
  \<open>body_other = js ''{"agent_name":"Ada","webhook_link":"https://example.org/hook","conversation_type":"interview","media_mode":"video"}''\<close>

definition json_texts :: "(jsstring \<times> int json) list" where
  "json_texts =
     [(js ''{}'', JObj []),
      (body_video,
       JObj [(js ''agent_name'', JStr (js ''Ada'')),
             (js ''webhook_link'', JStr (js ''https://example.org/hook'')),
             (js ''conversation_type'', JStr (js ''interview'')),
             (js ''media_mode'', JStr (js ''audio_video''))]),
      (body_other,
       JObj [(js ''agent_name'', JStr (js ''Ada'')),
             (js ''webhook_link'', JStr (js ''https://example.org/hook'')),
             (js ''conversation_type'', JStr (js ''interview'')),
             (js ''media_mode'', JStr (js ''video''))])]"

definition sample_host :: "(int, builtin) host" where
  "sample_host =
     \<lparr> JSON_parse = map_of json_texts,
       Number_toString = show_int,
       Number_falsy = (\<lambda>n. n = 0),
       Number_of_length = int,
       inherited = (\<lambda>v k. case v of
                             JObj kvs \<Rightarrow> (case object_prototype k of
                                            Some b \<Rightarrow> Inr (Builtin b)
                                          | None \<Rightarrow> Inr Undefined)
                           | _ \<Rightarrow> Inr Undefined),
       builtin_get = (\<lambda>b k. Inr Undefined),
       builtin_toString = (\<lambda>b. case b of
                                  NativeFunction f \<Rightarrow>
                                    Inr (js ''function '' @ f @ js ''() { [native code] }'')) \<rparr>"

text \<open>A database server that is up and accepts every row, ids compared as they are written.\<close>

definition sample_pg :: "int pg" where
  "sample_pg = \<lparr> initDb_ok = True, insert_ok = (\<lambda>r. True), uuid_key = (\<lambda>i. i) \<rparr>"

section \<open>Sample requests\<close>

definition request5 :: "int details" where
  "request5 = \<lparr> prompt_name = Some (JStr (js ''greeting'')), prompt_label = None,
                 prompt_text = Some (JStr (js ''  '')),
                 prompt_variables = Some (JObj [(js ''user'', JStr (js ''Ada''))]) \<rparr>"

definition request1 :: "int details" where
  "request1 = \<lparr> prompt_name = None, prompt_label = None,
                 prompt_text = Some (JStr (js ''Hi {{ missing.path }}'')),
                 prompt_variables = Some (JObj []) \<rparr>"

definition request3 :: "int details" where
  "request3 = \<lparr> prompt_name = None, prompt_label = Some (JStr (js ''v2'')),
                 prompt_text = Some (JStr (js ''Hello {{ user.name }}'')),
                 prompt_variables = Some (JObj [(js ''user'', JObj [(js ''name'', JStr (js ''Ada''))])]) \<rparr>"

definition request8 :: "int details" where
  "request8 = \<lparr> prompt_name = Some (JStr (js ''greeting'')), prompt_label = None,
                 prompt_text = Some (JStr (js ''{{ constructor }}'')),
                 prompt_variables = Some (JStr (js ''not json'')) \<rparr>"

definition request4 :: "int details" where
  "request4 = \<lparr> prompt_name = Some (JStr (js ''greeting'')), prompt_label = Some (JStr (js ''v2'')),
                 prompt_text = None,
                 prompt_variables = Some (JObj [(js ''user'', JObj [(js ''name'', JStr (js ''Ada''))])]) \<rparr>"


definition unlabelled_client :: "(int, nat) langfuse" where
  "unlabelled_client s name label =
     (case label of
        Some l \<Rightarrow> (Inl (Thrown 404), Suc s)
      | None \<Rightarrow> (Inr (Some (Fetched None (Some (JStr (js ''Hello {{ user.name }}!''))))), Suc s))"

definition request_throwing :: "int details" where
  "request_throwing = \<lparr> prompt_name = Some (JStr (js ''greeting'')), prompt_label = None,
      prompt_text = Some (JStr (js ''x{{ a }}'')),
      prompt_variables = Some (JObj [(js ''a'', JObj [(js ''toString'', JStr (js ''nope''))])]) \<rparr>"



section \<open>String literals\<close>

lemma unat_of_char: "unat (of_char c :: 16 word) = of_char c"
proof -
  have small: "(of_char c :: nat) < 256"
    using of_char_mod_256 [of c, where ?'a = nat] by (metis mod_less_divisor zero_less_numeral)
  have "(of_char c :: nat) < 2 ^ LENGTH(16)"
    by (rule less_le_trans [OF small]) simp
  then have "unat (of_nat (of_char c) :: 16 word) = of_char c"
    by (simp only: unat_of_nat mod_less)
  then show ?thesis by (simp only: of_nat_of_char)
qed

lemma of_char_word_eq_iff [simp]: "(of_char a :: 16 word) = of_char b \<longleftrightarrow> a = b"
  by (metis unat_of_char of_char_eq_iff)

lemma js_eq_iff [simp]: "js a = js b \<longleftrightarrow> a = b"
  by (simp add: js_def inj_on_def)

lemma js_Nil_iff [simp]: "js a = [] \<longleftrightarrow> a = []"
  by (simp add: js_def)

section \<open>The regular expression and the replacement\<close>

lemma key_not_space: "is_key c \<Longrightarrow> \<not> is_space c"
  unfolding is_key_def is_word_def is_space_def
  by (auto simp: word_le_nat_alt)

lemma lbrace_class [simp]: "\<not> is_space lbrace" "\<not> is_key lbrace" "lbrace \<noteq> rbrace"
  by (simp_all add: is_space_def is_key_def is_word_def lbrace_def rbrace_def)

lemma rbrace_class [simp]: "\<not> is_space rbrace" "\<not> is_key rbrace" "rbrace \<noteq> lbrace"
  by (simp_all add: is_space_def is_key_def is_word_def lbrace_def rbrace_def)

lemma dropWhile_append_stop: "\<not> P x \<Longrightarrow> dropWhile P (r @ x # z) = dropWhile P r @ x # z"
  by (induction r) auto

lemma takeWhile_append_stop: "\<not> P x \<Longrightarrow> takeWhile P (r @ x # z) = takeWhile P r"
  by (induction r) auto

lemma match_placeholder_append:
  assumes "pre \<noteq> []"
  shows "match_placeholder (pre @ lbrace # lbrace # y)
         = map_option (\<lambda>(key, rest). (key, rest @ lbrace # lbrace # y)) (match_placeholder pre)"
proof (cases pre)
  case Nil
  with assms show ?thesis by simp
next
  case (Cons a pre')
  show ?thesis
  proof (cases pre')
    case Nil
    with Cons show ?thesis
      by (simp add: match_placeholder_def)
  next
    case (Cons b r)
    define close :: "jsstring \<Rightarrow> jsstring \<Rightarrow> (jsstring \<times> jsstring) option" where
      "close k t = (if k = [] then None
                    else (case t of c # d # rest \<Rightarrow>
                                      if c = rbrace \<and> d = rbrace then Some (k, rest) else None
                                 | _ \<Rightarrow> None))" for k t
    define key where "key = takeWhile is_key (dropWhile is_space r)"
    define r3 where "r3 = dropWhile is_space (dropWhile is_key (dropWhile is_space r))"
    have unfold: "match_placeholder (a # b # t) =
        (if a = lbrace \<and> b = lbrace
         then close (takeWhile is_key (dropWhile is_space t))
                (dropWhile is_space (dropWhile is_key (dropWhile is_space t)))
         else None)" for t
      by (simp add: match_placeholder_def Let_def close_def)
    have short: "match_placeholder pre = (if a = lbrace \<and> b = lbrace then close key r3 else None)"
      using \<open>pre = a # pre'\<close> Cons by (simp add: unfold key_def r3_def)
    have long: "match_placeholder (pre @ lbrace # lbrace # y) =
        (if a = lbrace \<and> b = lbrace then close key (r3 @ lbrace # lbrace # y) else None)"
      using \<open>pre = a # pre'\<close> Cons
      by (simp add: unfold key_def r3_def dropWhile_append_stop takeWhile_append_stop)
    show ?thesis
    proof (cases r3)
      case Nil
      then show ?thesis by (simp add: short long close_def)
    next
      case c: (Cons c r3')
      then show ?thesis by (cases r3') (simp_all add: short long close_def)
    qed
  qed
qed

lemma match_placeholder_canonical:
  assumes "well_formed w1 key w2"
  shows "match_placeholder (placeholder w1 key w2 @ rest) = Some (key, rest)"
proof -
  from assms have w1: "\<And>x. x \<in> set w1 \<Longrightarrow> is_space x" and w2: "\<And>x. x \<in> set w2 \<Longrightarrow> is_space x"
    and k: "\<And>x. x \<in> set key \<Longrightarrow> is_key x" and ne: "key \<noteq> []"
    by (auto simp: well_formed_def list_all_iff)
  from ne obtain k0 ks where key: "key = k0 # ks" by (cases key) auto
  with k have k0: "is_key k0" by simp
  have tail: "w2 @ rbrace # rbrace # rest = t # ts \<Longrightarrow> \<not> is_key t" for t ts
    using w2 by (cases w2) (auto dest: key_not_space)
  have a: "dropWhile is_space (w1 @ key @ w2 @ rbrace # rbrace # rest) = key @ w2 @ rbrace # rbrace # rest"
    using w1 k0 key by (simp add: key_not_space)
  have b: "takeWhile is_key (key @ w2 @ rbrace # rbrace # rest) = key"
    using k tail by (cases "w2 @ rbrace # rbrace # rest") auto
  have c: "dropWhile is_key (key @ w2 @ rbrace # rbrace # rest) = w2 @ rbrace # rbrace # rest"
    using k tail by (cases "w2 @ rbrace # rbrace # rest") auto
  have d: "dropWhile is_space (w2 @ rbrace # rbrace # rest) = rbrace # rbrace # rest"
    using w2 by simp
  show ?thesis
    using ne by (simp add: match_placeholder_def placeholder_def a b c d)
qed

lemma match_placeholder_form:
  assumes "match_placeholder s = Some (key, rest)"
  shows "\<exists>w1 w2. well_formed w1 key w2 \<and> s = placeholder w1 key w2 @ rest"
proof -
  from assms obtain r where s: "s = lbrace # lbrace # r"
    by (auto simp: match_placeholder_def split: list.splits if_splits)
  define r1 where "r1 = dropWhile is_space r"
  define r2 where "r2 = dropWhile is_key r1"
  from assms s have key: "key = takeWhile is_key r1" "key \<noteq> []"
    and r3: "dropWhile is_space r2 = rbrace # rbrace # rest"
    by (auto simp: match_placeholder_def Let_def r1_def r2_def split: list.splits if_splits)
  have "r = takeWhile is_space r @ r1" by (simp add: r1_def)
  moreover have "r1 = key @ r2" by (simp add: key r2_def)
  moreover have "r2 = takeWhile is_space r2 @ rbrace # rbrace # rest"
    using r3 takeWhile_dropWhile_id [of is_space r2] by simp
  ultimately have "s = placeholder (takeWhile is_space r) key (takeWhile is_space r2) @ rest"
    using s by (simp add: placeholder_def)
  moreover have "well_formed (takeWhile is_space r) key (takeWhile is_space r2)"
    using key by (auto simp: well_formed_def list_all_iff dest: set_takeWhileD)
  ultimately show ?thesis by blast
qed

lemma match_placeholder_iff:
  "match_placeholder s = Some (key, rest)
   \<longleftrightarrow> (\<exists>w1 w2. well_formed w1 key w2 \<and> s = placeholder w1 key w2 @ rest)"
  using match_placeholder_form match_placeholder_canonical by blast

lemma ebind_simps [simp]: "ebind (Inl e) f = Inl e" "ebind (Inr x) f = f x"
  by (simp_all add: ebind_def)

lemma replace_placeholders_Cons:
  "replace_placeholders h (c # cs) vars =
     (case match_placeholder (c # cs) of
        Some (key, rest) \<Rightarrow>
          ebind (replacement h vars key) (\<lambda>r.
          ebind (replace_placeholders h rest vars) (\<lambda>t. Inr (r @ t)))
      | None \<Rightarrow> ebind (replace_placeholders h cs vars) (\<lambda>t. Inr (c # t)))"
  by (simp add: ebind_def split: option.splits sum.splits)

lemma replace_placeholders_append:
  "replace_placeholders h (pre @ lbrace # lbrace # y) vars =
     ebind (replace_placeholders h pre vars) (\<lambda>a.
     ebind (replace_placeholders h (lbrace # lbrace # y) vars) (\<lambda>b. Inr (a @ b)))"
proof (induction h pre vars rule: replace_placeholders.induct)
  case (1 h vars)
  show ?case by (simp add: ebind_def split: sum.splits)
next
  case (2 h c cs vars)
  let ?x = "lbrace # lbrace # y"
  show ?case
  proof (cases "match_placeholder (c # cs)")
    case None
    then have m: "match_placeholder ((c # cs) @ ?x) = None"
      by (simp only: match_placeholder_append [of "c # cs"] list.distinct not_False_eq_True
          option.map)
    have "replace_placeholders h ((c # cs) @ ?x) vars =
        ebind (replace_placeholders h (cs @ ?x) vars) (\<lambda>t. Inr (c # t))"
      using m by (simp add: ebind_def split: sum.splits)
    also have "\<dots> = ebind (replace_placeholders h (c # cs) vars) (\<lambda>a.
        ebind (replace_placeholders h ?x vars) (\<lambda>b. Inr (a @ b)))"
      using None "2.IH"(1) [OF None]
      by (simp add: ebind_def split: sum.splits)
    finally show ?thesis .
  next
    case (Some kr)
    obtain key rest where kr: "kr = (key, rest)" by (cases kr)
    with Some have s: "match_placeholder (c # cs) = Some (key, rest)" by simp
    then have m: "match_placeholder ((c # cs) @ ?x) = Some (key, rest @ ?x)"
      by (simp only: match_placeholder_append [of "c # cs"] list.distinct not_False_eq_True
          option.map prod.case)
    show ?thesis
    proof (cases "replacement h vars key")
      case (Inl e)
      with s m show ?thesis by simp
    next
      case (Inr r)
      have "replace_placeholders h ((c # cs) @ ?x) vars =
          ebind (replace_placeholders h (rest @ ?x) vars) (\<lambda>t. Inr (r @ t))"
        using m Inr by (simp add: ebind_def split: sum.splits)
      also have "\<dots> = ebind (replace_placeholders h (c # cs) vars) (\<lambda>a.
          ebind (replace_placeholders h ?x vars) (\<lambda>b. Inr (a @ b)))"
        using s Inr "2.IH"(2) [OF s refl Inr]
        by (simp add: ebind_def split: sum.splits)
      finally show ?thesis .
    qed
  qed
qed

lemma replace_placeholders_unfold:
  "s \<noteq> [] \<Longrightarrow> replace_placeholders h s vars =
     (case match_placeholder s of
        Some (key, rest) \<Rightarrow>
          ebind (replacement h vars key) (\<lambda>r.
          ebind (replace_placeholders h rest vars) (\<lambda>t. Inr (r @ t)))
      | None \<Rightarrow> ebind (replace_placeholders h (tl s) vars) (\<lambda>t. Inr (hd s # t)))"
  by (cases s) (simp_all add: replace_placeholders_Cons del: replace_placeholders.simps
      split: option.splits)

lemma replace_placeholders_head:
  assumes "well_formed w1 key w2"
  shows "replace_placeholders h (placeholder w1 key w2 @ post) vars =
     ebind (replacement h vars key) (\<lambda>r.
     ebind (replace_placeholders h post vars) (\<lambda>t. Inr (r @ t)))"
proof -
  have "placeholder w1 key w2 @ post \<noteq> []"
    by (simp add: placeholder_def)
  then show ?thesis
    by (simp add: replace_placeholders_unfold match_placeholder_canonical [OF assms])
qed

lemma replace_placeholders_through:
  assumes "well_formed w1 key w2"
  shows "replace_placeholders h (pre @ placeholder w1 key w2 @ post) vars =
     ebind (replace_placeholders h pre vars) (\<lambda>a.
     ebind (replacement h vars key) (\<lambda>r.
     ebind (replace_placeholders h post vars) (\<lambda>b. Inr (a @ r @ b))))"
proof -
  have "placeholder w1 key w2 @ post = lbrace # lbrace # (w1 @ key @ w2 @ [rbrace, rbrace] @ post)"
    by (simp add: placeholder_def)
  then have "replace_placeholders h (pre @ placeholder w1 key w2 @ post) vars =
     ebind (replace_placeholders h pre vars) (\<lambda>a.
     ebind (replace_placeholders h (placeholder w1 key w2 @ post) vars) (\<lambda>b. Inr (a @ b)))"
    using replace_placeholders_append by metis
  then show ?thesis
    by (simp add: replace_placeholders_head [OF assms] ebind_def split: sum.splits)
qed

lemma replace_placeholders_none:
  "\<not> has_placeholder t \<Longrightarrow> replace_placeholders h t vars = Inr t"
  by (induction t) (auto split: option.splits)

lemma no_lbrace_no_placeholder: "lbrace \<notin> set t \<Longrightarrow> \<not> has_placeholder t"
  by (induction t) (auto simp: match_placeholder_def split: list.splits)

section \<open>Path resolution\<close>

lemma step_Undefined [simp]: "step h Undefined k = Inr Undefined"
  by (simp add: step_def truthy_val_def)

lemma step_eq: "step h acc k = (if truthy_val h acc then GetV h acc k else Inr Undefined)"
  by (auto simp: step_def split: sum.splits)

lemma walk_Undefined [simp]: "walk h Undefined ks = Inr Undefined"
  by (induction ks) simp_all

lemma walk_append:
  "walk h v (ks1 @ ks2) = (case walk h v ks1 of Inl e \<Rightarrow> Inl e | Inr v' \<Rightarrow> walk h v' ks2)"
  by (induction ks1 arbitrary: v) (simp_all split: sum.splits)

lemma walk_stops:
  assumes "\<not> truthy_val h v \<or> GetV h v k = Inr Undefined"
  shows "walk h v (k # ks) = Inr Undefined"
  using assms by (auto simp: step_eq)

lemma walk_spec_resolve:
  "spec_resolve v ks = Some v' \<Longrightarrow> walk h (Data v) ks = Inr (Data v')"
proof (induction ks arbitrary: v)
  case Nil
  then show ?case by simp
next
  case (Cons k ks)
  then obtain kvs w where v: "v = JObj kvs" and w: "map_of kvs k = Some w"
    and rest: "spec_resolve w ks = Some v'"
    by (auto split: json.splits option.splits)
  have "step h (Data v) k = Inr (Data w)"
    using v w by (simp add: step_eq truthy_val_def GetV_def)
  with Cons.IH [OF rest] show ?case by simp
qed

lemma split_dot_not_Nil [simp]: "split_dot key \<noteq> []"
  by (induction key) (auto split: list.splits)

lemma replacement_resolved:
  assumes "spec_resolve vars (split_dot key) = Some v"
  shows "replacement h vars key = (if v = JNull then Inr [] else ToString h v)"
  using walk_spec_resolve [OF assms, of h] by (simp add: replacement_def render_def)

lemma replacement_stops:
  assumes "split_dot key = ks1 @ k # ks2" and "walk h (Data vars) ks1 = Inr v"
    and "\<not> truthy_val h v \<or> GetV h v k = Inr Undefined"
  shows "replacement h vars key = Inr []"
  using assms walk_stops [OF assms(3), of ks2]
  by (simp add: replacement_def walk_append render_def)

lemma replacement_empty_object:
  assumes "inherited h (JObj []) (hd (split_dot key)) = Inr Undefined"
  shows "replacement h (JObj []) key = Inr []"
proof -
  obtain k ks where ks: "split_dot key = k # ks"
    using split_dot_not_Nil [of key] by (cases "split_dot key") auto
  with assms have "GetV h (Data (JObj [])) k = Inr Undefined"
    by (simp add: GetV_def)
  then show ?thesis
    using replacement_stops [of key "[]" k ks h "JObj []"] ks by simp
qed

lemma replace_placeholders_erase:
  assumes "\<forall>key \<in> set (placeholder_keys t). replacement h vars key = Inr []"
  shows "replace_placeholders h t vars = Inr (erase_placeholders t)"
  using assms
proof (induction t rule: placeholder_keys.induct)
  case 1
  show ?case by simp
next
  case (2 c cs)
  show ?case
  proof (cases "match_placeholder (c # cs)")
    case None
    with 2 show ?thesis by simp
  next
    case (Some kr)
    obtain key rest where kr: "kr = (key, rest)" by (cases kr)
    with Some 2 show ?thesis by simp
  qed
qed

lemma replace_placeholders_succeeds:
  assumes "\<forall>key \<in> set (placeholder_keys t). \<exists>r. replacement h vars key = Inr r"
  shows "\<exists>out. replace_placeholders h t vars = Inr out"
  using assms
proof (induction t rule: placeholder_keys.induct)
  case 1
  show ?case by simp
next
  case (2 c cs)
  show ?case
  proof (cases "match_placeholder (c # cs)")
    case None
    with 2 show ?thesis by auto
  next
    case (Some kr)
    obtain key rest where kr: "kr = (key, rest)" by (cases kr)
    with Some have m: "match_placeholder (c # cs) = Some (key, rest)" by simp
    from m "2.prems" obtain r where r: "replacement h vars key = Inr r"
      by auto
    from m "2.prems" have "\<forall>key \<in> set (placeholder_keys rest). \<exists>r. replacement h vars key = Inr r"
      by simp
    from "2.IH"(2) [OF m refl this] obtain out where "replace_placeholders h rest vars = Inr out"
      by blast
    with m r show ?thesis by simp
  qed
qed

lemma replace_placeholders_throws:
  assumes "replace_placeholders h t vars = Inl e"
  shows "\<exists>key \<in> set (placeholder_keys t). replacement h vars key = Inl e"
  using assms
proof (induction t rule: placeholder_keys.induct)
  case 1
  then show ?case by simp
next
  case (2 c cs)
  show ?case
  proof (cases "match_placeholder (c # cs)")
    case None
    with 2 show ?thesis by (auto split: sum.splits)
  next
    case (Some kr)
    obtain key rest where kr: "kr = (key, rest)" by (cases kr)
    with Some have m: "match_placeholder (c # cs) = Some (key, rest)" by simp
    show ?thesis
    proof (cases "replacement h vars key")
      case (Inl e')
      with m "2.prems" show ?thesis by auto
    next
      case (Inr r)
      with m "2.prems" have "replace_placeholders h rest vars = Inl e"
        by (auto split: sum.splits)
      from "2.IH"(2) [OF m refl this] m show ?thesis by auto
    qed
  qed
qed

lemma replacement_empty_object_eq:
  "replacement h (JObj []) key =
     (case inherited h (JObj []) (hd (split_dot key)) of
        Inl e \<Rightarrow> Inl e
      | Inr v \<Rightarrow> (case walk h v (tl (split_dot key)) of
                   Inl e \<Rightarrow> Inl e
                 | Inr v' \<Rightarrow> render h v'))"
proof -
  obtain k ks where ks: "split_dot key = k # ks"
    using split_dot_not_Nil [of key] by (cases "split_dot key") auto
  have "step h (Data (JObj [])) k = inherited h (JObj []) k"
    by (auto simp: step_eq truthy_val_def GetV_def)
  then show ?thesis
    by (simp add: replacement_def ks split: sum.splits)
qed

lemma replacement_nullish:
  assumes "walk h (Data vars) (split_dot key) = Inr Undefined
         \<or> walk h (Data vars) (split_dot key) = Inr (Data JNull)"
  shows "replacement h vars key = Inr []"
  using assms by (auto simp: replacement_def render_def)

lemma replacement_value:
  assumes "walk h (Data vars) (split_dot key) = Inr (Data j)" and "j \<noteq> JNull"
  shows "replacement h vars key = ToString h j"
  using assms by (simp add: replacement_def render_def)

lemma walk_stops_at:
  assumes "split_dot key = ks1 @ k # ks2" and "walk h (Data vars) ks1 = Inr v"
    and "\<not> truthy_val h v \<or> GetV h v k = Inr Undefined"
  shows "walk h (Data vars) (split_dot key) = Inr Undefined"
  using assms walk_stops [OF assms(3), of ks2] by (simp add: walk_append)

section \<open>\<open>generatePrompt\<close>: the tiers\<close>

lemma or_empty_id [simp]: "or_empty s = s"
  by (simp add: or_empty_def)

lemma fallback_no_lbrace: "lbrace \<notin> set fallback_template"
  by (simp add: fallback_template_def js_def lbrace_def)

lemma manualCompile_string:
  "manualCompile h (Some (JStr t)) vars = replace_placeholders h t vars"
  by (simp add: manualCompile_def toStringPrompt_def)

lemma static_fallback_eq: "static_fallback h vars = Inr fallback_template"
  by (simp add: static_fallback_def manualCompile_string replace_placeholders_none
      no_lbrace_no_placeholder fallback_no_lbrace)


lemma remote_tier_failure:
  "fst (remote_attempt h get s name label vars) = Inl e \<Longrightarrow>
   fst (remote_tier h get s name label vars) = Inr fallback_template"
  by (auto simp: remote_tier_def static_fallback_eq split: prod.splits sum.splits)

lemma remote_tier_calls:
  "snd (remote_tier h get s name label vars) = snd (remote_attempt h get s name label vars)"
  by (auto simp: remote_tier_def split: prod.splits sum.splits)

lemma remote_attempt_failure_iff:
  "fst (remote_attempt h get s name label vars) = Inl e
   \<longleftrightarrow> (case fst (fetch_prompt get s name label) of
          Inl e' \<Rightarrow> e = e'
        | Inr None \<Rightarrow> e = PromptNotFound
        | Inr (Some f) \<Rightarrow> compile_fetched h f vars = Inl e)"
  by (auto simp: remote_attempt_def split: prod.splits sum.splits option.splits)

lemma fetch_prompt_both_throw:
  assumes "get s name label = (Inl e1, s1)" and "get s1 name None = (Inl e2, s2)"
  shows "fst (fetch_prompt get s name label) = Inl e2"
  using assms by (simp add: fetch_prompt_def)

lemma generatePrompt_missing_name:
  "\<not> truthy_opt h (prompt_name d) \<Longrightarrow>
   generatePrompt h lf s d = (Inl (Error ''Missing prompt_name in details''), [], s)"
  by (auto simp: generatePrompt_def truthy_opt_def Let_def split: option.splits)

lemma generatePrompt_inline:
  "truthy_opt h (prompt_name d) \<Longrightarrow> promptText d \<noteq> [] \<Longrightarrow>
   generatePrompt h lf s d =
     (manualCompile h (Some (JStr (promptText d))) (normalize_variables h (prompt_variables d)), [], s)"
  by (auto simp: generatePrompt_def truthy_opt_def Let_def split: option.splits sum.splits)

lemma generatePrompt_unconfigured:
  "truthy_opt h (prompt_name d) \<Longrightarrow> promptText d = [] \<Longrightarrow>
   generatePrompt h None s d = (Inr fallback_template, [], s)"
  by (auto simp: generatePrompt_def truthy_opt_def Let_def static_fallback_eq split: option.splits)

lemma generatePrompt_remote:
  "prompt_name d = Some name \<Longrightarrow> truthy h name \<Longrightarrow> promptText d = [] \<Longrightarrow>
   generatePrompt h (Some get) s d =
     remote_tier h get s name (if truthy_opt h (prompt_label d) then prompt_label d else None)
       (normalize_variables h (prompt_variables d))"
  by (simp add: generatePrompt_def Let_def)

lemma fetch_prompt_labelled_failure:
  assumes "get s name label = (Inl e, s1)" and "get s1 name None = (r2, s2)"
  shows "fetch_prompt get s name label = (r2, [(name, label), (name, None)], s2)"
  using assms by (simp add: fetch_prompt_def)

lemma fetch_prompt_first_success:
  assumes "get s name label = (Inr f, s1)"
  shows "fetch_prompt get s name label = (Inr f, [(name, label)], s1)"
  using assms by (simp add: fetch_prompt_def)




lemma generatePrompt_remote_failure:
  assumes "prompt_name d = Some name" and "truthy h name" and "promptText d = []"
    and "fst (remote_attempt h get s name
               (if truthy_opt h (prompt_label d) then prompt_label d else None)
               (normalize_variables h (prompt_variables d))) = Inl e"
  shows "fst (generatePrompt h (Some get) s d) = Inr fallback_template"
  using assms by (simp add: generatePrompt_remote remote_tier_failure)

lemma normalize_variables_malformed:
  assumes "malformed_variables h pv"
  shows "normalize_variables h pv = JObj []"
proof (cases pv)
  case None
  with assms show ?thesis by (simp add: malformed_variables_def)
next
  case (Some j)
  show ?thesis
  proof (cases j)
    case (JStr t)
    with Some assms show ?thesis
      by (cases "JSON_parse h t")
         (auto simp: malformed_variables_def normalize_variables_def)
  qed (use Some assms in
        \<open>auto simp: malformed_variables_def normalize_variables_def typeof_object_def\<close>)
qed

lemma normalize_variables_empty [simp]: "normalize_variables h (Some (JObj [])) = JObj []"
  by (simp add: normalize_variables_def typeof_object_def)

lemma promptText_update [simp]: "promptText (d\<lparr>prompt_variables := pv\<rparr>) = promptText d"
  by (simp add: promptText_def)

lemma generatePrompt_variables:
  "normalize_variables h (prompt_variables d) = normalize_variables h pv \<Longrightarrow>
   generatePrompt h lf s d = generatePrompt h lf s (d\<lparr>prompt_variables := pv\<rparr>)"
  by (simp add: generatePrompt_def Let_def split: option.splits)




section \<open>The conversations handler\<close>

lemma insertConversation_media_mode:
  assumes "insertConversation db p table = Inr table'"
  shows "table' = table(uuid_key db (id_param p) \<mapsto> insert_row p)
       \<and> col_media_mode (insert_row p)
           = (if media_mode_param p = Some (JStr (js ''audio_video''))
              then js ''audio_video'' else js ''audio_only'')
       \<and> col_id (insert_row p) = id_param p"
  using assms by (auto simp: insertConversation_def insert_row_def Let_def split: if_splits)

lemma audio_video_not_audio_only: "js ''audio_video'' \<noteq> js ''audio_only''"
  by (simp add: js_def)

lemma post_conversations_cases:
  assumes "post_conversations h db fresh text table = (resp, table')"
  shows "table' = table \<and> (\<forall>ident. resp \<noteq> Ok ident)
       \<or> (\<exists>ident r. resp = Ok ident \<and> table' = table(uuid_key db ident \<mapsto> r) \<and> col_id r = ident
            \<and> col_media_mode r
                = (if supplied_media_mode h text = Some (JStr (js ''audio_video''))
                   then js ''audio_video'' else js ''audio_only''))"
proof (cases "readJsonBody h text")
  case None
  with assms show ?thesis by (auto simp: post_conversations_def)
next
  case (Some body)
  then have sup: "supplied_media_mode h text = field body ''media_mode''"
    by (simp add: supplied_media_mode_def)
  show ?thesis
  proof (cases "conversation_id h body fresh")
    case (Inl e)
    with assms Some show ?thesis
      by (auto simp: post_conversations_def Let_def split: if_splits)
  next
    case (Inr ident)
    let ?p = "\<lparr> id_param = ident,
        conversation_type_param = or_empty_string h (field body ''conversation_type''),
        prompt_name_param = field body ''prompt_name'',
        prompt_label_param = field body ''prompt_label'',
        agent_name_param = or_empty_string h (field body ''agent_name''),
        webhook_link_param = or_empty_string h (field body ''webhook_link''),
        company_name_param = field body ''company_name'',
        prompt_text_param = field body ''prompt_text'',
        agent_description_param = field body ''agent_description'',
        media_mode_param = Some (if field body ''media_mode'' = Some (JStr (js ''audio_video''))
                                 then JStr (js ''audio_video'') else JStr (js ''audio_only'')),
        prompt_variables_param = object_or_empty h (field body ''prompt_variables''),
        ui_variables_param = object_or_empty h (field body ''ui_variables''),
        complete_screen_param = object_or_empty h
          (field (if truthy_opt h (field body ''ui_variables'')
                  then or_null (field body ''ui_variables'') else JObj []) ''complete_screen'') \<rparr>"
    show ?thesis
    proof (cases "insertConversation db ?p table")
      case fail: (Inl e)
      with assms Some Inr show ?thesis
        by (auto simp: post_conversations_def Let_def split: if_splits)
    next
      case ok: (Inr t)
      from insertConversation_media_mode [OF ok]
      have t: "t = table(uuid_key db ident \<mapsto> insert_row ?p)"
        and m: "col_media_mode (insert_row ?p)
            = (if field body ''media_mode'' = Some (JStr (js ''audio_video''))
               then js ''audio_video'' else js ''audio_only'')"
        and i: "col_id (insert_row ?p) = ident"
        by (simp_all add: audio_video_not_audio_only js_def)
      from assms Some Inr ok
      have "table' = table \<and> (\<forall>ident. resp \<noteq> Ok ident) \<or> resp = Ok ident \<and> table' = t"
        by (auto simp: post_conversations_def Let_def split: if_splits)
      with t m i sup show ?thesis by auto
    qed
  qed
qed

section \<open>The properties\<close>

lemmas eval_defs = generatePrompt_def promptText_def trim_def or_empty_def truthy_opt_def
  normalize_variables_def typeof_object_def remote_tier_def remote_attempt_def fetch_prompt_def
  compile_fetched_def static_fallback_def manualCompile_def toStringPrompt_def
  match_placeholder_def replacement_def step_def truthy_val_def GetV_def render_def
  js_def is_space_def is_key_def is_word_def lbrace_def rbrace_def Let_def

subsection \<open>The name and the inline text\<close>

text \<open>
  The request of the specification's scenario, inline text \<open>Hi {{ missing.path }}\<close>, empty
  variables and no name, is rejected: the check of the name comes before the inline text
  is looked at.
\<close>

theorem inline_text_without_name_counterexample:
  "promptText request1 = js ''Hi {{ missing.path }}''
   \<and> generatePrompt sample_host (None :: (int, unit) langfuse option) () request1
       = (Inl (Error ''Missing prompt_name in details''), [], ())
   \<and> fst (generatePrompt sample_host (None :: (int, unit) langfuse option) () request1)
       \<noteq> Inr (js ''Hi '')"
  by (simp add: request1_def eval_defs)

text \<open>
  C1, as the code has it: the name is required also when inline text is present. Without a
  name (absent or falsy) resolution throws \<open>Missing prompt_name in details\<close> and calls
  nothing. With a name and inline text that is non-empty after trimming, it calls nothing and
  its outcome is that of substituting the variables into the trimmed inline text: a string
  when the replacement of every placeholder of the text is computed without an exception, and
  an exception only when the replacement of one of its placeholders throws, then that
  exception, the inline branch being outside the \<open>try\<close>. In particular the scenario's
  request, once it carries a name, returns \<open>Hi \<close> (on a host where objects inherit no
  property \<open>missing\<close>).
\<close>

theorem name_required_with_inline_text:
  "(\<not> truthy_opt h (prompt_name d)
      \<longrightarrow> generatePrompt h lf s d = (Inl (Error ''Missing prompt_name in details''), [], s))
   \<and> (truthy_opt h (prompt_name d) \<and> promptText d \<noteq> []
      \<longrightarrow> generatePrompt h lf s d
            = (manualCompile h (Some (JStr (promptText d)))
                 (normalize_variables h (prompt_variables d)), [], s)
          \<and> ((\<forall>key \<in> set (placeholder_keys (promptText d)).
                 \<exists>r. replacement h (normalize_variables h (prompt_variables d)) key = Inr r)
              \<longrightarrow> (\<exists>out. fst (generatePrompt h lf s d) = Inr out))
          \<and> (\<forall>e. fst (generatePrompt h lf s d) = Inl e
                \<longrightarrow> (\<exists>key \<in> set (placeholder_keys (promptText d)).
                      replacement h (normalize_variables h (prompt_variables d)) key = Inl e)))
   \<and> (truthy_opt h (prompt_name d) \<and> prompt_text d = Some (JStr (js ''Hi {{ missing.path }}''))
       \<and> prompt_variables d = Some (JObj []) \<and> inherited h (JObj []) (js ''missing'') = Inr Undefined
      \<longrightarrow> generatePrompt h lf s d = (Inr (js ''Hi ''), [], s))"
proof (intro conjI impI allI)
  assume "\<not> truthy_opt h (prompt_name d)"
  then show "generatePrompt h lf s d = (Inl (Error ''Missing prompt_name in details''), [], s)"
    by (rule generatePrompt_missing_name)
next
  assume "truthy_opt h (prompt_name d) \<and> promptText d \<noteq> []"
  then show "generatePrompt h lf s d
      = (manualCompile h (Some (JStr (promptText d)))
           (normalize_variables h (prompt_variables d)), [], s)"
    by (simp add: generatePrompt_inline)
next
  assume a: "truthy_opt h (prompt_name d) \<and> promptText d \<noteq> []"
    and "\<forall>key \<in> set (placeholder_keys (promptText d)).
      \<exists>r. replacement h (normalize_variables h (prompt_variables d)) key = Inr r"
  from replace_placeholders_succeeds [OF this(2)] a
  show "\<exists>out. fst (generatePrompt h lf s d) = Inr out"
    by (simp add: generatePrompt_inline manualCompile_string)
next
  fix e
  assume a: "truthy_opt h (prompt_name d) \<and> promptText d \<noteq> []"
    and "fst (generatePrompt h lf s d) = Inl e"
  then have "replace_placeholders h (promptText d)
      (normalize_variables h (prompt_variables d)) = Inl e"
    by (simp add: generatePrompt_inline manualCompile_string)
  then show "\<exists>key \<in> set (placeholder_keys (promptText d)).
      replacement h (normalize_variables h (prompt_variables d)) key = Inl e"
    by (rule replace_placeholders_throws)
next
  assume a: "truthy_opt h (prompt_name d) \<and> prompt_text d = Some (JStr (js ''Hi {{ missing.path }}''))
       \<and> prompt_variables d = Some (JObj []) \<and> inherited h (JObj []) (js ''missing'') = Inr Undefined"
  have t: "promptText d = js ''Hi {{ missing.path }}''"
    using a by (simp add: promptText_def trim_def js_def is_space_def)
  have wf: "well_formed (js '' '') (js ''missing.path'') (js '' '')"
    by (simp add: well_formed_def js_def is_space_def is_key_def is_word_def)
  have sp: "hd (split_dot (js ''missing.path'')) = js ''missing''"
    by (simp add: js_def)
  have r: "replacement h (JObj []) (js ''missing.path'') = Inr []"
    using a by (simp add: replacement_empty_object sp)
  have shape: "js ''Hi {{ missing.path }}''
      = js ''Hi '' @ placeholder (js '' '') (js ''missing.path'') (js '' '') @ []"
    by (simp add: js_def placeholder_def lbrace_def rbrace_def)
  have pre: "replace_placeholders h (js ''Hi '') (JObj []) = Inr (js ''Hi '')"
    by (rule replace_placeholders_none, rule no_lbrace_no_placeholder) (simp add: js_def lbrace_def)
  have "replace_placeholders h (js ''Hi {{ missing.path }}'') (JObj []) = Inr (js ''Hi '')"
    using replace_placeholders_through [OF wf, of h "js ''Hi ''" "[]" "JObj []"]
    by (simp add: shape r pre)
  moreover have "promptText d \<noteq> []"
    using t by (simp add: js_def)
  ultimately show "generatePrompt h lf s d = (Inr (js ''Hi ''), [], s)"
    using a t by (simp add: generatePrompt_inline manualCompile_string)
qed

theorem name_required_with_inline_text_witness:
  "truthy_opt sample_host (prompt_name (request1\<lparr>prompt_name := Some (JStr (js ''greeting''))\<rparr>))
   \<and> inherited sample_host (JObj []) (js ''missing'') = Inr Undefined
   \<and> generatePrompt sample_host (None :: (int, unit) langfuse option) ()
        (request1\<lparr>prompt_name := Some (JStr (js ''greeting''))\<rparr>)
       = (Inr (js ''Hi ''), [], ())
   \<and> truthy_opt sample_host (prompt_name request_throwing)
   \<and> promptText request_throwing = js ''x{{ a }}''
   \<and> placeholder_keys (js ''x{{ a }}'') = [js ''a'']
   \<and> replacement sample_host (normalize_variables sample_host (prompt_variables request_throwing))
        (js ''a'') = Inl TypeError
   \<and> generatePrompt sample_host (None :: (int, unit) langfuse option) () request_throwing
       = (Inl TypeError, [], ())"
proof -
  let ?d = "request1\<lparr>prompt_name := Some (JStr (js ''greeting''))\<rparr>"
  let ?none = "None :: (int, unit) langfuse option"
  have a: "truthy_opt sample_host (prompt_name ?d)"
    by (simp add: truthy_opt_def)
  have b: "inherited sample_host (JObj []) (js ''missing'') = Inr Undefined"
    by (simp add: sample_host_def object_prototype_def)
  have c: "prompt_text ?d = Some (JStr (js ''Hi {{ missing.path }}''))"
    and d: "prompt_variables ?d = Some (JObj [])"
    by (simp_all add: request1_def)
  from name_required_with_inline_text [of sample_host ?d ?none "()"] a b c d
  have one: "generatePrompt sample_host ?none () ?d = (Inr (js ''Hi ''), [], ())"
    by blast
  have n: "truthy_opt sample_host (prompt_name request_throwing)"
    by (simp add: request_throwing_def truthy_opt_def)
  have t: "promptText request_throwing = js ''x{{ a }}''"
    by (simp add: request_throwing_def promptText_def trim_def or_empty_def js_def is_space_def)
  have ne: "promptText request_throwing \<noteq> []"
    by (simp add: t)
  have k: "placeholder_keys (js ''x{{ a }}'') = [js ''a'']"
    by (simp add: eval_defs)
  have r: "replacement sample_host (normalize_variables sample_host (prompt_variables request_throwing))
      (js ''a'') = Inl TypeError"
    by (simp add: request_throwing_def eval_defs)
  have m: "manualCompile sample_host (Some (JStr (promptText request_throwing)))
      (normalize_variables sample_host (prompt_variables request_throwing)) = Inl TypeError"
    by (simp add: request_throwing_def eval_defs)
  from name_required_with_inline_text [of sample_host request_throwing ?none "()"] n ne m
  have two: "generatePrompt sample_host ?none () request_throwing = (Inl TypeError, [], ())"
    by simp
  from a b one n t k r two show ?thesis by blast
qed

subsection \<open>Remote failures\<close>



subsection \<open>Inline text and the remote service\<close>

text \<open>
  A request with inline text, a label and no name, on a configured client: it is rejected,
  it does not return the inline text.
\<close>

theorem inline_text_any_request_counterexample:
  "promptText request3 \<noteq> []
   \<and> generatePrompt sample_host (Some unlabelled_client) 0 request3
       = (Inl (Error ''Missing prompt_name in details''), [], 0)"
  by (simp add: request3_def eval_defs)

text \<open>
  C3, as the code has it: for every request whose inline text is non-empty after trimming,
  resolution makes no call to the remote service and leaves its state alone, whether a
  client is configured or not. When the request carries a name, its outcome is that of
  substituting the variables into the trimmed inline text: a string when the replacement of
  every placeholder of the text is computed without an exception, and an exception only when
  the replacement of one of its placeholders throws, then that exception. When the request
  carries no name, it is rejected.
\<close>

theorem inline_text_no_remote_call:
  assumes "promptText d \<noteq> []"
  shows "fst (snd (generatePrompt h lf s d)) = [] \<and> snd (snd (generatePrompt h lf s d)) = s
       \<and> (truthy_opt h (prompt_name d)
          \<longrightarrow> fst (generatePrompt h lf s d)
                = manualCompile h (Some (JStr (promptText d)))
                    (normalize_variables h (prompt_variables d))
              \<and> ((\<forall>key \<in> set (placeholder_keys (promptText d)).
                     \<exists>r. replacement h (normalize_variables h (prompt_variables d)) key = Inr r)
                  \<longrightarrow> (\<exists>out. fst (generatePrompt h lf s d) = Inr out))
              \<and> (\<forall>e. fst (generatePrompt h lf s d) = Inl e
                    \<longrightarrow> (\<exists>key \<in> set (placeholder_keys (promptText d)).
                          replacement h (normalize_variables h (prompt_variables d)) key = Inl e)))
       \<and> (\<not> truthy_opt h (prompt_name d)
          \<longrightarrow> fst (generatePrompt h lf s d) = Inl (Error ''Missing prompt_name in details''))"
proof (cases "truthy_opt h (prompt_name d)")
  case False
  with assms show ?thesis by (simp add: generatePrompt_missing_name)
next
  case True
  let ?vars = "normalize_variables h (prompt_variables d)"
  have g: "generatePrompt h lf s d = (replace_placeholders h (promptText d) ?vars, [], s)"
    using True assms by (simp add: generatePrompt_inline manualCompile_string)
  have ok: "\<exists>out. fst (generatePrompt h lf s d) = Inr out"
    if "\<forall>key \<in> set (placeholder_keys (promptText d)). \<exists>r. replacement h ?vars key = Inr r"
    using replace_placeholders_succeeds [OF that] by (simp add: g)
  have bad: "\<exists>key \<in> set (placeholder_keys (promptText d)). replacement h ?vars key = Inl e"
    if "fst (generatePrompt h lf s d) = Inl e" for e
    using that by (simp add: g replace_placeholders_throws)
  from True g ok bad show ?thesis
    by (simp add: manualCompile_string)
qed

theorem inline_text_no_remote_call_witness:
  "promptText (request3\<lparr>prompt_name := Some (JStr (js ''greeting''))\<rparr>) \<noteq> []
   \<and> generatePrompt sample_host (Some unlabelled_client) 0
        (request3\<lparr>prompt_name := Some (JStr (js ''greeting''))\<rparr>)
       = (Inr (js ''Hello Ada''), [], 0)"
proof -
  let ?d = "request3\<lparr>prompt_name := Some (JStr (js ''greeting''))\<rparr>"
  have a: "promptText ?d \<noteq> []"
    by (simp add: request3_def promptText_def trim_def or_empty_def js_def is_space_def)
  have n: "truthy_opt sample_host (prompt_name ?d)"
    by (simp add: truthy_opt_def)
  have m: "manualCompile sample_host (Some (JStr (promptText ?d)))
      (normalize_variables sample_host (prompt_variables ?d)) = Inr (js ''Hello Ada'')"
    by (simp add: request3_def eval_defs sample_host_def)
  from inline_text_no_remote_call [OF a, of sample_host "Some unlabelled_client" 0] n m
  have "generatePrompt sample_host (Some unlabelled_client) 0 ?d = (Inr (js ''Hello Ada''), [], 0)"
    by (simp add: prod_eq_iff)
  with a show ?thesis by blast
qed

subsection \<open>The labelled lookup and its retry\<close>

text \<open>
  C4: within one resolution that supplies a label, if the labelled lookup fails (throws),
  exactly one retry without the label is made, after the labelled attempt and in the state
  that attempt left; and if the retry returns a prompt whose compilation succeeds, the
  compiled text is the value returned.
\<close>

theorem labelled_lookup_then_one_retry:
  assumes "prompt_name d = Some name" and "truthy h name" and "promptText d = []"
    and "truthy_opt h (prompt_label d)"
    and "get s name (prompt_label d) = (Inl e, s_mid)"
    and "get s_mid name None = (retry, s_end)"
  shows "snd (generatePrompt h (Some get) s d) = ([(name, prompt_label d), (name, None)], s_end)
       \<and> (\<forall>f t. retry = Inr (Some f)
             \<and> compile_fetched h f (normalize_variables h (prompt_variables d)) = Inr t
            \<longrightarrow> fst (generatePrompt h (Some get) s d) = Inr t)"
proof -
  let ?vars = "normalize_variables h (prompt_variables d)"
  have gp: "generatePrompt h (Some get) s d = remote_tier h get s name (prompt_label d) ?vars"
    using assms(1-4) by (simp add: generatePrompt_remote)
  have fetch: "fetch_prompt get s name (prompt_label d)
      = (retry, [(name, prompt_label d), (name, None)], s_end)"
    using assms(5,6) by (rule fetch_prompt_labelled_failure)
  have calls: "snd (generatePrompt h (Some get) s d) = ([(name, prompt_label d), (name, None)], s_end)"
    by (simp add: gp remote_tier_calls remote_attempt_def fetch)
  have "fst (generatePrompt h (Some get) s d) = Inr t"
    if "retry = Inr (Some f)" and "compile_fetched h f ?vars = Inr t" for f t
    using that by (simp add: gp remote_tier_def remote_attempt_def fetch)
  with calls show ?thesis by blast
qed

theorem labelled_lookup_then_one_retry_witness:
  "prompt_name request4 = Some (JStr (js ''greeting'')) \<and> truthy sample_host (JStr (js ''greeting''))
   \<and> promptText request4 = [] \<and> truthy_opt sample_host (prompt_label request4)
   \<and> unlabelled_client 0 (JStr (js ''greeting'')) (prompt_label request4) = (Inl (Thrown 404), 1)
   \<and> unlabelled_client 1 (JStr (js ''greeting'')) None
       = (Inr (Some (Fetched None (Some (JStr (js ''Hello {{ user.name }}!''))))), 2)
   \<and> generatePrompt sample_host (Some unlabelled_client) 0 request4
       = (Inr (js ''Hello Ada!''),
          [(JStr (js ''greeting''), Some (JStr (js ''v2''))), (JStr (js ''greeting''), None)], 2)"
proof -
  let ?f = "Fetched None (Some (JStr (js ''Hello {{ user.name }}!''))) :: int fetched"
  have a: "prompt_name request4 = Some (JStr (js ''greeting''))"
    and l: "prompt_label request4 = Some (JStr (js ''v2''))"
    by (simp_all add: request4_def)
  have b: "truthy sample_host (JStr (js ''greeting'') :: int json)"
    by simp
  have c: "promptText request4 = []"
    by (simp add: request4_def promptText_def trim_def or_empty_def)
  have d: "truthy_opt sample_host (prompt_label request4)"
    by (simp add: request4_def truthy_opt_def)
  have e: "unlabelled_client 0 (JStr (js ''greeting'')) (prompt_label request4) = (Inl (Thrown 404), 1)"
    by (simp add: request4_def unlabelled_client_def)
  have f: "unlabelled_client 1 (JStr (js ''greeting'')) None = (Inr (Some ?f), 2)"
    by (simp add: unlabelled_client_def numeral_2_eq_2)
  have g: "compile_fetched sample_host ?f (normalize_variables sample_host (prompt_variables request4))
      = Inr (js ''Hello Ada!'')"
    by (simp add: request4_def eval_defs sample_host_def)
  from labelled_lookup_then_one_retry [where h = sample_host and d = request4
      and get = unlabelled_client and s = 0 and name = "JStr (js ''greeting'')"
      and e = "Thrown 404" and s_mid = 1 and retry = "Inr (Some ?f)" and s_end = 2] a b c d e f g l
  have "generatePrompt sample_host (Some unlabelled_client) 0 request4
      = (Inr (js ''Hello Ada!''),
         [(JStr (js ''greeting''), Some (JStr (js ''v2''))), (JStr (js ''greeting''), None)], 2)"
    by (simp add: prod_eq_iff)
  with a b c d e f show ?thesis by blast
qed

subsection \<open>No client\<close>

text \<open>
  C5: if no remote client is configured (the credentials are absent) and no inline text is
  given, resolution returns the fixed default template with the variables substituted, and
  makes no call to the remote service. The request carries a name, as every request without
  inline text must. The default template has no placeholder, so its substitution is the
  template itself.
\<close>

theorem unconfigured_static_fallback:
  assumes "truthy_opt h (prompt_name d)" and "promptText d = []"
    and "\<not> hasLangfuseCreds public_key secret_key"
  shows "generatePrompt h (init_langfuse public_key secret_key constructed) s d
           = (manualCompile h
                (Some (JStr (js ''You are a helpful, concise voice assistant. Provide clear, direct answers.'')))
                (normalize_variables h (prompt_variables d)), [], s)
         \<and> generatePrompt h (init_langfuse public_key secret_key constructed) s d
           = (Inr (js ''You are a helpful, concise voice assistant. Provide clear, direct answers.''), [], s)"
proof -
  have "init_langfuse public_key secret_key constructed = None"
    using assms(3) by (simp add: init_langfuse_def)
  moreover have "manualCompile h (Some (JStr fallback_template))
      (normalize_variables h (prompt_variables d)) = Inr fallback_template"
    by (simp add: manualCompile_string replace_placeholders_none no_lbrace_no_placeholder
        fallback_no_lbrace)
  ultimately show ?thesis
    using assms(1,2) by (simp add: generatePrompt_unconfigured fallback_template_def [symmetric])
qed

theorem unconfigured_static_fallback_witness:
  "truthy_opt sample_host (prompt_name request5) \<and> promptText request5 = []
   \<and> \<not> hasLangfuseCreds (Some (js ''pk'')) None
   \<and> generatePrompt sample_host
        (init_langfuse (Some (js ''pk'')) None (Inl (Thrown 0) :: error + (int, unit) langfuse)) () request5
      = (Inr (js ''You are a helpful, concise voice assistant. Provide clear, direct answers.''), [], ())"
proof -
  have a: "truthy_opt sample_host (prompt_name request5)"
    by (simp add: request5_def truthy_opt_def js_def)
  have b: "promptText request5 = []"
    by (simp add: request5_def promptText_def trim_def js_def is_space_def)
  have c: "\<not> hasLangfuseCreds (Some (js ''pk'')) None"
    by (simp add: hasLangfuseCreds_def Boolean_env_def)
  show ?thesis
    using a b c unconfigured_static_fallback [OF a b c, where constructed = "Inl (Thrown 0)" and s = "()"]
    by blast
qed

subsection \<open>Placeholders that resolve\<close>

text \<open>
  A path that resolves to \<open>null\<close>: the placeholder is replaced by the empty string, not by
  the string form \<open>null\<close> of the value.
\<close>

theorem null_value_counterexample:
  "spec_resolve (JObj [(js ''a'', JNull)] :: int json) (split_dot (js ''a'')) = Some JNull
   \<and> ToString sample_host (JNull :: int json) = Inr (js ''null'')
   \<and> manualCompile sample_host (Some (JStr (js ''{{ a }}''))) (JObj [(js ''a'', JNull)]) = Inr []
   \<and> manualCompile sample_host (Some (JStr (js ''{{ a }}''))) (JObj [(js ''a'', JNull)])
       \<noteq> ToString sample_host (JNull :: int json)"
  by (simp add: eval_defs sample_host_def)

text \<open>
  C6, as the code has it: for every placeholder whose path resolves in the variable mapping,
  by successive key lookup, to a value other than \<open>null\<close>, substitution replaces the
  placeholder with \<open>String(value)\<close>, the text before and the text after the placeholder being
  substituted on their own; it throws only where that conversion throws. A path that
  resolves to \<open>null\<close> gives the empty string. In particular \<open>{{ a.b }}\<close> with the mapping
  \<open>{a: {b: "x"}}\<close> is replaced by \<open>x\<close>.
\<close>

theorem resolved_placeholder_replaced:
  assumes "well_formed w1 key w2" and "spec_resolve vars (split_dot key) = Some v"
  shows "manualCompile h (Some (JStr (pre @ placeholder w1 key w2 @ post))) vars
         = ebind (manualCompile h (Some (JStr pre)) vars) (\<lambda>a.
           ebind (if v = JNull then Inr [] else ToString h v) (\<lambda>r.
           ebind (manualCompile h (Some (JStr post)) vars) (\<lambda>b. Inr (a @ r @ b))))"
  using assms
  by (simp add: manualCompile_string replace_placeholders_through replacement_resolved)

theorem resolved_placeholder_replaced_witness:
  "well_formed (js '' '') (js ''a.b'') (js '' '')
   \<and> spec_resolve (JObj [(js ''a'', JObj [(js ''b'', JStr (js ''x''))])] :: int json)
        (split_dot (js ''a.b'')) = Some (JStr (js ''x''))
   \<and> manualCompile sample_host (Some (JStr (js ''say {{ a.b }}!'')))
        (JObj [(js ''a'', JObj [(js ''b'', JStr (js ''x''))])])
       = Inr (js ''say x!'')"
proof -
  let ?vars = "JObj [(js ''a'', JObj [(js ''b'', JStr (js ''x''))])] :: int json"
  have a: "well_formed (js '' '') (js ''a.b'') (js '' '')"
    by (simp add: well_formed_def js_def is_space_def is_key_def is_word_def)
  have b: "spec_resolve ?vars (split_dot (js ''a.b'')) = Some (JStr (js ''x''))"
    by (simp add: js_def)
  have c: "(JStr (js ''x'') :: int json) \<noteq> JNull"
    by simp
  have shape: "js ''say {{ a.b }}!'' = js ''say '' @ placeholder (js '' '') (js ''a.b'') (js '' '') @ js ''!''"
    by (simp add: js_def placeholder_def lbrace_def rbrace_def)
  have pre: "manualCompile sample_host (Some (JStr (js ''say ''))) ?vars = Inr (js ''say '')"
    and post: "manualCompile sample_host (Some (JStr (js ''!''))) ?vars = Inr (js ''!'')"
    by (simp_all add: eval_defs)
  from resolved_placeholder_replaced [OF a b, of sample_host "js ''say ''" "js ''!''"] c
  have "manualCompile sample_host (Some (JStr (js ''say {{ a.b }}!''))) ?vars = Inr (js ''say x!'')"
    by (simp add: shape pre post) (simp add: js_def)
  with a b show ?thesis by blast
qed

subsection \<open>Placeholders that do not resolve\<close>

text \<open>
  A path that runs into a value that is not a mapping: \<open>{{ a.0 }}\<close> with \<open>{a: "xyz"}\<close>. The
  lookup is a property read, and a string answers for its indices: the placeholder renders
  as \<open>x\<close>.
\<close>

theorem string_index_counterexample:
  "spec_resolve (JObj [(js ''a'', JStr (js ''xyz''))] :: int json) (split_dot (js ''a.0'')) = None
   \<and> manualCompile sample_host (Some (JStr (js ''{{ a.0 }}''))) (JObj [(js ''a'', JStr (js ''xyz''))])
       = Inr (js ''x'')"
  by (simp add: eval_defs sample_host_def array_index_def is_digit_def)

text \<open>
  C7, as the code has it: for every template and every variable mapping, a placeholder renders
  as the empty string, and its resolution does not throw, when the reduction over its path,
  by property reads, ends in \<open>undefined\<close> or \<open>null\<close>. It ends in \<open>undefined\<close> in particular
  when, at a segment still to be read, the value reached so far is falsy (such as \<open>null\<close>,
  \<open>false\<close>, \<open>0\<close> or the empty string) or has no property, own or inherited, under that
  segment. A path that ends at \<open>false\<close> renders as \<open>false\<close>, and one that ends at a
  number as the string form of the number. A value on the way that is not a mapping does
  not by itself give the empty string, as the string above shows.
\<close>

theorem unresolved_placeholder_empty:
  assumes "well_formed w1 key w2"
  shows "(walk h (Data vars) (split_dot key) = Inr Undefined
          \<or> walk h (Data vars) (split_dot key) = Inr (Data JNull)
        \<longrightarrow> replacement h vars key = Inr []
            \<and> manualCompile h (Some (JStr (pre @ placeholder w1 key w2 @ post))) vars
              = ebind (manualCompile h (Some (JStr pre)) vars) (\<lambda>a.
                ebind (manualCompile h (Some (JStr post)) vars) (\<lambda>b. Inr (a @ b))))
       \<and> (split_dot key = front @ k # behind \<and> walk h (Data vars) front = Inr v
          \<and> (\<not> truthy_val h v \<or> GetV h v k = Inr Undefined)
        \<longrightarrow> walk h (Data vars) (split_dot key) = Inr Undefined
            \<and> replacement h vars key = Inr []
            \<and> manualCompile h (Some (JStr (pre @ placeholder w1 key w2 @ post))) vars
              = ebind (manualCompile h (Some (JStr pre)) vars) (\<lambda>a.
                ebind (manualCompile h (Some (JStr post)) vars) (\<lambda>b. Inr (a @ b))))
       \<and> (walk h (Data vars) (split_dot key) = Inr (Data (JBool False))
        \<longrightarrow> replacement h vars key = Inr (js ''false''))
       \<and> (walk h (Data vars) (split_dot key) = Inr (Data (JNum n))
        \<longrightarrow> replacement h vars key = Inr (Number_toString h n))"
proof -
  have empty: "manualCompile h (Some (JStr (pre @ placeholder w1 key w2 @ post))) vars
      = ebind (manualCompile h (Some (JStr pre)) vars) (\<lambda>a.
        ebind (manualCompile h (Some (JStr post)) vars) (\<lambda>b. Inr (a @ b)))"
    if "replacement h vars key = Inr []"
    using assms that by (simp add: manualCompile_string replace_placeholders_through)
  have one: "replacement h vars key = Inr []"
    if "walk h (Data vars) (split_dot key) = Inr Undefined
      \<or> walk h (Data vars) (split_dot key) = Inr (Data JNull)"
    using that by (rule replacement_nullish)
  have two: "walk h (Data vars) (split_dot key) = Inr Undefined"
    if "split_dot key = front @ k # behind \<and> walk h (Data vars) front = Inr v
      \<and> (\<not> truthy_val h v \<or> GetV h v k = Inr Undefined)"
    using that walk_stops_at [of key front k behind h vars v] by blast
  have three: "replacement h vars key = Inr (js ''false'')"
    if "walk h (Data vars) (split_dot key) = Inr (Data (JBool False))"
    using that by (simp add: replacement_def render_def)
  have four: "replacement h vars key = Inr (Number_toString h n)"
    if "walk h (Data vars) (split_dot key) = Inr (Data (JNum n))"
    using that by (simp add: replacement_def render_def)
  from empty one two three four show ?thesis by blast
qed

theorem unresolved_placeholder_empty_witness:
  "well_formed [] (js ''a.c'') []
   \<and> split_dot (js ''a.c'') = [js ''a''] @ js ''c'' # []
   \<and> walk sample_host (Data (JObj [(js ''a'', JObj [(js ''b'', JStr (js ''x''))])])) [js ''a'']
       = Inr (Data (JObj [(js ''b'', JStr (js ''x''))]))
   \<and> GetV sample_host (Data (JObj [(js ''b'', JStr (js ''x''))])) (js ''c'') = Inr Undefined
   \<and> manualCompile sample_host (Some (JStr (js ''<{{a.c}}>'')))
        (JObj [(js ''a'', JObj [(js ''b'', JStr (js ''x''))])])
       = Inr (js ''<>'')
   \<and> well_formed [] (js ''z'') []
   \<and> walk sample_host (Data (JObj [(js ''z'', JBool False)])) (split_dot (js ''z''))
       = Inr (Data (JBool False))
   \<and> replacement sample_host (JObj [(js ''z'', JBool False)]) (js ''z'') = Inr (js ''false'')"
proof -
  let ?vars = "JObj [(js ''a'', JObj [(js ''b'', JStr (js ''x''))])] :: int json"
  let ?v = "Data (JObj [(js ''b'', JStr (js ''x''))]) :: (int, builtin) jsval"
  let ?z = "JObj [(js ''z'', JBool False)] :: int json"
  have a: "well_formed [] (js ''a.c'') []"
    by (simp add: well_formed_def js_def is_key_def is_word_def)
  have b: "split_dot (js ''a.c'') = [js ''a''] @ js ''c'' # []"
    by (simp add: js_def)
  have c: "walk sample_host (Data ?vars) [js ''a''] = Inr ?v"
    by (simp add: step_def truthy_val_def GetV_def)
  have d: "GetV sample_host ?v (js ''c'') = Inr Undefined"
    by (simp add: GetV_def sample_host_def object_prototype_def)
  have shape: "js ''<{{a.c}}>'' = js ''<'' @ placeholder [] (js ''a.c'') [] @ js ''>''"
    by (simp add: js_def placeholder_def lbrace_def rbrace_def)
  have pre: "manualCompile sample_host (Some (JStr (js ''<''))) ?vars = Inr (js ''<'')"
    and post: "manualCompile sample_host (Some (JStr (js ''>''))) ?vars = Inr (js ''>'')"
    by (simp_all add: eval_defs)
  from unresolved_placeholder_empty [OF a, where h = sample_host and vars = ?vars
      and front = "[js ''a'']" and k = "js ''c''" and behind = "[]" and v = ?v
      and pre = "js ''<''" and post = "js ''>''"] b c d
  have "manualCompile sample_host
        (Some (JStr (js ''<'' @ placeholder [] (js ''a.c'') [] @ js ''>''))) ?vars
      = ebind (manualCompile sample_host (Some (JStr (js ''<''))) ?vars) (\<lambda>a.
        ebind (manualCompile sample_host (Some (JStr (js ''>''))) ?vars) (\<lambda>b. Inr (a @ b)))"
    by blast
  then have one: "manualCompile sample_host (Some (JStr (js ''<{{a.c}}>''))) ?vars = Inr (js ''<>'')"
    by (simp add: shape pre post) (simp add: js_def)
  have e: "well_formed [] (js ''z'') []"
    by (simp add: well_formed_def js_def is_key_def is_word_def)
  have f: "walk sample_host (Data ?z) (split_dot (js ''z'')) = Inr (Data (JBool False))"
    by (simp add: js_def step_def truthy_val_def GetV_def)
  from unresolved_placeholder_empty [OF e, where h = sample_host and vars = ?z] f
  have two: "replacement sample_host ?z (js ''z'') = Inr (js ''false'')"
    by blast
  from a b c d one e f two show ?thesis by blast
qed

subsection \<open>Malformed variables\<close>

text \<open>
  Variables that are not JSON, and the inline template \<open>{{ constructor }}\<close>: the empty
  mapping is substituted, and the placeholder renders as the string form of the function
  that every object inherits under that name.
\<close>

theorem inherited_property_counterexample:
  "malformed_variables sample_host (prompt_variables request8)
   \<and> normalize_variables sample_host (prompt_variables request8) = JObj []
   \<and> promptText request8 = js ''{{ constructor }}''
   \<and> generatePrompt sample_host (None :: (int, unit) langfuse option) () request8
       = (Inr (js ''function Object() { [native code] }''), [], ())"
  by (simp add: request8_def malformed_variables_def sample_host_def json_texts_def
      body_video_def body_other_def object_prototype_def eval_defs)

text \<open>
  C8, as the code has it: if the variables are a string that is not valid JSON, or are not
  an object once parsed, resolution goes on exactly as for a request whose variables are the
  empty mapping, so this condition surfaces no error. In the manual substitution every
  placeholder whose first segment is not the name of a property that the empty object
  inherits then renders as the empty string, whatever surrounds it; a placeholder whose first
  segment is such a name is resolved by reading its remaining segments from the inherited
  property.
\<close>

theorem malformed_variables_empty_mapping:
  assumes "malformed_variables h (prompt_variables d)"
  shows "normalize_variables h (prompt_variables d) = JObj []
       \<and> generatePrompt h lf s d = generatePrompt h lf s (d\<lparr>prompt_variables := Some (JObj [])\<rparr>)
       \<and> (\<forall>w1 key w2 pre post.
             well_formed w1 key w2 \<and> inherited h (JObj []) (hd (split_dot key)) = Inr Undefined
             \<longrightarrow> manualCompile h (Some (JStr (pre @ placeholder w1 key w2 @ post)))
                   (normalize_variables h (prompt_variables d))
                 = ebind (manualCompile h (Some (JStr pre))
                            (normalize_variables h (prompt_variables d))) (\<lambda>a.
                   ebind (manualCompile h (Some (JStr post))
                            (normalize_variables h (prompt_variables d))) (\<lambda>b. Inr (a @ b))))
       \<and> (\<forall>t. (\<forall>key \<in> set (placeholder_keys t).
                  inherited h (JObj []) (hd (split_dot key)) = Inr Undefined)
              \<longrightarrow> manualCompile h (Some (JStr t)) (normalize_variables h (prompt_variables d))
                  = Inr (erase_placeholders t))
       \<and> (\<forall>key. replacement h (normalize_variables h (prompt_variables d)) key
              = (case inherited h (JObj []) (hd (split_dot key)) of
                   Inl e \<Rightarrow> Inl e
                 | Inr v \<Rightarrow> (case walk h v (tl (split_dot key)) of
                              Inl e \<Rightarrow> Inl e
                            | Inr v' \<Rightarrow> render h v')))"
proof -
  have n: "normalize_variables h (prompt_variables d) = JObj []"
    using assms by (rule normalize_variables_malformed)
  have g: "generatePrompt h lf s d = generatePrompt h lf s (d\<lparr>prompt_variables := Some (JObj [])\<rparr>)"
    by (rule generatePrompt_variables) (simp add: n)
  have each: "manualCompile h (Some (JStr (pre @ placeholder w1 key w2 @ post))) (JObj [])
      = ebind (manualCompile h (Some (JStr pre)) (JObj [])) (\<lambda>a.
        ebind (manualCompile h (Some (JStr post)) (JObj [])) (\<lambda>b. Inr (a @ b)))"
    if "well_formed w1 key w2 \<and> inherited h (JObj []) (hd (split_dot key)) = Inr Undefined"
    for w1 key w2 pre post
    using that
    by (simp add: manualCompile_string replace_placeholders_through replacement_empty_object)
  have whole: "manualCompile h (Some (JStr t)) (JObj []) = Inr (erase_placeholders t)"
    if "\<forall>key \<in> set (placeholder_keys t). inherited h (JObj []) (hd (split_dot key)) = Inr Undefined"
    for t
    using that by (simp add: manualCompile_string replace_placeholders_erase replacement_empty_object)
  from n g each whole replacement_empty_object_eq [of h] show ?thesis
    by simp
qed

theorem malformed_variables_empty_mapping_witness:
  "malformed_variables sample_host (prompt_variables request8)
   \<and> well_formed (js '' '') (js ''user.name'') (js '' '')
   \<and> inherited sample_host (JObj []) (hd (split_dot (js ''user.name''))) = Inr Undefined
   \<and> manualCompile sample_host (Some (JStr (js ''{{ constructor }}|{{ user.name }}|'')))
        (normalize_variables sample_host (prompt_variables request8))
       = Inr (js ''function Object() { [native code] }||'')"
proof -
  let ?vars = "normalize_variables sample_host (prompt_variables request8)"
  have a: "malformed_variables sample_host (prompt_variables request8)"
    by (simp add: request8_def malformed_variables_def sample_host_def json_texts_def
        body_video_def body_other_def)
  have w: "well_formed (js '' '') (js ''user.name'') (js '' '')"
    by (simp add: well_formed_def js_def is_space_def is_key_def is_word_def)
  have i: "inherited sample_host (JObj []) (hd (split_dot (js ''user.name''))) = Inr Undefined"
    by (simp add: js_def sample_host_def object_prototype_def)
  note inst = malformed_variables_empty_mapping [OF a, of None "()"]
  from inst have n: "?vars = JObj []"
    by blast
  have shape: "js ''{{ constructor }}|{{ user.name }}|''
      = js ''{{ constructor }}|'' @ placeholder (js '' '') (js ''user.name'') (js '' '') @ js ''|''"
    by (simp add: js_def placeholder_def lbrace_def rbrace_def)
  have pre: "manualCompile sample_host (Some (JStr (js ''{{ constructor }}|''))) (JObj [])
      = Inr (js ''function Object() { [native code] }|'')"
    by (simp add: eval_defs sample_host_def object_prototype_def)
  have post: "manualCompile sample_host (Some (JStr (js ''|''))) (JObj []) = Inr (js ''|'')"
    by (simp add: eval_defs)
  from inst have "\<forall>w1 key w2 pre post.
      well_formed w1 key w2 \<and> inherited sample_host (JObj []) (hd (split_dot key)) = Inr Undefined
      \<longrightarrow> manualCompile sample_host (Some (JStr (pre @ placeholder w1 key w2 @ post))) ?vars
          = ebind (manualCompile sample_host (Some (JStr pre)) ?vars) (\<lambda>a.
            ebind (manualCompile sample_host (Some (JStr post)) ?vars) (\<lambda>b. Inr (a @ b)))"
    by blast
  from this [rule_format, of "js '' ''" "js ''user.name''" "js '' ''" "js ''{{ constructor }}|''" "js ''|''"]
    w i
  have "manualCompile sample_host (Some (JStr (js ''{{ constructor }}|{{ user.name }}|''))) ?vars
      = Inr (js ''function Object() { [native code] }||'')"
    by (simp add: shape n pre post) (simp add: js_def)
  with a w i show ?thesis by blast
qed

subsection \<open>No recursive expansion\<close>

text \<open>
  C9: substitution does not expand recursively. A template without placeholder is returned
  unchanged, whatever the mapping holds; and what replaces a placeholder is put between the
  substituted text before it and the substituted text after it as it is, whatever it
  contains: a value that is itself \<open>{{ x }}\<close> appears verbatim.
\<close>

theorem no_recursive_expansion:
  "(\<not> has_placeholder t \<longrightarrow> manualCompile h (Some (JStr t)) vars = Inr t)
   \<and> (well_formed w1 key w2 \<and> replacement h vars key = Inr r
      \<longrightarrow> manualCompile h (Some (JStr (pre @ placeholder w1 key w2 @ post))) vars
          = ebind (manualCompile h (Some (JStr pre)) vars) (\<lambda>a.
            ebind (manualCompile h (Some (JStr post)) vars) (\<lambda>b. Inr (a @ r @ b))))
   \<and> (well_formed w1 key w2 \<and> spec_resolve vars (split_dot key) = Some (JStr r)
      \<longrightarrow> manualCompile h (Some (JStr (placeholder w1 key w2))) vars = Inr r)"
proof (intro conjI impI)
  assume "\<not> has_placeholder t"
  then show "manualCompile h (Some (JStr t)) vars = Inr t"
    by (simp add: manualCompile_string replace_placeholders_none)
next
  assume "well_formed w1 key w2 \<and> replacement h vars key = Inr r"
  then show "manualCompile h (Some (JStr (pre @ placeholder w1 key w2 @ post))) vars
      = ebind (manualCompile h (Some (JStr pre)) vars) (\<lambda>a.
        ebind (manualCompile h (Some (JStr post)) vars) (\<lambda>b. Inr (a @ r @ b)))"
    by (simp add: manualCompile_string replace_placeholders_through)
next
  assume a: "well_formed w1 key w2 \<and> spec_resolve vars (split_dot key) = Some (JStr r)"
  then have "replacement h vars key = Inr r"
    by (simp add: replacement_resolved)
  with a replace_placeholders_through [of w1 key w2 h "[]" "[]" vars]
  show "manualCompile h (Some (JStr (placeholder w1 key w2))) vars = Inr r"
    by (simp add: manualCompile_string)
qed

theorem no_recursive_expansion_witness:
  "\<not> has_placeholder (js ''plain {text} {{ }}'')
   \<and> manualCompile sample_host (Some (JStr (js ''plain {text} {{ }}'')))
        (JObj [(js ''x'', JStr (js ''{{ y }}'')), (js ''y'', JStr (js ''boom''))])
       = Inr (js ''plain {text} {{ }}'')
   \<and> well_formed (js '' '') (js ''x'') (js '' '')
   \<and> replacement sample_host (JObj [(js ''x'', JStr (js ''{{ y }}'')), (js ''y'', JStr (js ''boom''))])
        (js ''x'') = Inr (js ''{{ y }}'')
   \<and> manualCompile sample_host (Some (JStr (js ''<{{ x }}>'')))
        (JObj [(js ''x'', JStr (js ''{{ y }}'')), (js ''y'', JStr (js ''boom''))])
       = Inr (js ''<{{ y }}>'')"
proof -
  let ?vars = "JObj [(js ''x'', JStr (js ''{{ y }}'')), (js ''y'', JStr (js ''boom''))] :: int json"
  have a: "\<not> has_placeholder (js ''plain {text} {{ }}'')"
    by (simp add: eval_defs)
  have b: "well_formed (js '' '') (js ''x'') (js '' '')"
    by (simp add: well_formed_def js_def is_space_def is_key_def is_word_def)
  have c: "replacement sample_host ?vars (js ''x'') = Inr (js ''{{ y }}'')"
    by (simp add: eval_defs)
  have shape: "js ''<{{ x }}>'' = js ''<'' @ placeholder (js '' '') (js ''x'') (js '' '') @ js ''>''"
    by (simp add: js_def placeholder_def lbrace_def rbrace_def)
  have pre: "manualCompile sample_host (Some (JStr (js ''<''))) ?vars = Inr (js ''<'')"
    and post: "manualCompile sample_host (Some (JStr (js ''>''))) ?vars = Inr (js ''>'')"
    by (simp_all add: eval_defs)
  note inst = no_recursive_expansion [of "js ''plain {text} {{ }}''" sample_host ?vars
      "js '' ''" "js ''x''" "js '' ''" "js ''{{ y }}''" "js ''<''" "js ''>''"]
  from inst a have one: "manualCompile sample_host (Some (JStr (js ''plain {text} {{ }}''))) ?vars
      = Inr (js ''plain {text} {{ }}'')"
    by blast
  from inst b c have "manualCompile sample_host
        (Some (JStr (js ''<'' @ placeholder (js '' '') (js ''x'') (js '' '') @ js ''>''))) ?vars
      = ebind (manualCompile sample_host (Some (JStr (js ''<''))) ?vars) (\<lambda>a.
        ebind (manualCompile sample_host (Some (JStr (js ''>''))) ?vars) (\<lambda>b. Inr (a @ js ''{{ y }}'' @ b)))"
    by blast
  then have two: "manualCompile sample_host (Some (JStr (js ''<{{ x }}>''))) ?vars = Inr (js ''<{{ y }}>'')"
    by (simp add: shape pre post) (simp add: js_def)
  from a one b c two show ?thesis by blast
qed

subsection \<open>The media mode of a stored conversation\<close>

text \<open>
  C10: every row that \<open>POST /api/conversations\<close> writes has the media mode \<open>audio_video\<close>
  or \<open>audio_only\<close>: \<open>audio_video\<close> exactly when the request supplied the string
  \<open>audio_video\<close>, and \<open>audio_only\<close> for any other value, absent or invalid.
\<close>

theorem media_mode_normalized:
  assumes "post_conversations h db fresh request_text table = (resp, table')"
  shows "(\<forall>k. table' k \<noteq> table k
            \<longrightarrow> (\<exists>r. table' k = Some r
                  \<and> col_media_mode r
                      = (if supplied_media_mode h request_text = Some (JStr (js ''audio_video''))
                         then js ''audio_video'' else js ''audio_only'')
                  \<and> col_media_mode r \<in> {js ''audio_only'', js ''audio_video''}))
       \<and> (\<forall>ident. resp = Ok ident
            \<longrightarrow> (\<exists>r. table' (uuid_key db ident) = Some r
                  \<and> col_media_mode r
                      = (if supplied_media_mode h request_text = Some (JStr (js ''audio_video''))
                         then js ''audio_video'' else js ''audio_only'')))"
  using post_conversations_cases [OF assms] by (auto split: if_splits)

theorem media_mode_normalized_witness:
  "fst (post_conversations sample_host sample_pg (js ''0b8e2c1e-7d3a-4c55-9a53-2f1d6f0a9b11'') body_video Map.empty)
     = Ok (js ''0b8e2c1e-7d3a-4c55-9a53-2f1d6f0a9b11'')
   \<and> map_option col_media_mode
        (snd (post_conversations sample_host sample_pg (js ''0b8e2c1e-7d3a-4c55-9a53-2f1d6f0a9b11'')
                body_video Map.empty) (js ''0b8e2c1e-7d3a-4c55-9a53-2f1d6f0a9b11''))
     = Some (js ''audio_video'')
   \<and> supplied_media_mode sample_host body_other = Some (JStr (js ''video''))
   \<and> map_option col_media_mode
        (snd (post_conversations sample_host sample_pg (js ''0b8e2c1e-7d3a-4c55-9a53-2f1d6f0a9b11'')
                body_other Map.empty) (js ''0b8e2c1e-7d3a-4c55-9a53-2f1d6f0a9b11''))
     = Some (js ''audio_only'')"
proof -
  let ?id = "js ''0b8e2c1e-7d3a-4c55-9a53-2f1d6f0a9b11''"
  let ?v = "post_conversations sample_host sample_pg ?id body_video Map.empty"
  let ?o = "post_conversations sample_host sample_pg ?id body_other Map.empty"
  have key: "uuid_key sample_pg ?id = ?id"
    by (simp add: sample_pg_def)
  have sv: "supplied_media_mode sample_host body_video = Some (JStr (js ''audio_video''))"
    by code_simp
  have so: "supplied_media_mode sample_host body_other = Some (JStr (js ''video''))"
    by code_simp
  have ne: "JStr (js ''video'') \<noteq> (JStr (js ''audio_video'') :: int json)"
    by (simp add: js_def)
  have rv: "fst ?v = Ok ?id"
    by code_simp
  have ro: "fst ?o = Ok ?id"
    by code_simp
  from media_mode_normalized [where h = sample_host and db = sample_pg and fresh = "?id"
      and request_text = body_video and table = "Map.empty", OF prod.collapse [symmetric]]
  have "\<exists>r. snd ?v ?id = Some r \<and> col_media_mode r = js ''audio_video''"
    using rv sv key by simp
  moreover
  from media_mode_normalized [where h = sample_host and db = sample_pg and fresh = "?id"
      and request_text = body_other and table = "Map.empty", OF prod.collapse [symmetric]]
  have "\<exists>r. snd ?o ?id = Some r \<and> col_media_mode r = js ''audio_only''"
    using ro so key ne by simp
  ultimately show ?thesis
    using rv so by auto
qed

end
